theory Spec2Isabelle
  imports Complex_Main "HOL-Library.Monad_Syntax"
begin

section \<open>Python text primitives\<close>

text \<open>
  Python \<open>str\<close> values are modelled as \<open>string\<close>, the UTF-8 bytes of the text. Case
  mapping, white space and the word characters of \<open>re\<close> are the ASCII ones; a substring
  test on UTF-8 bytes agrees with the substring test on code points.
\<close>

definition is_space :: "char \<Rightarrow> bool" where
  "is_space c \<longleftrightarrow> c \<in> set [CHR 0x09, CHR 0x0A, CHR 0x0B, CHR 0x0C, CHR 0x0D,
                            CHR 0x1C, CHR 0x1D, CHR 0x1E, CHR 0x1F, CHR 0x20]"

definition upper_letters :: string where
  "upper_letters = ''ABCDEFGHIJKLMNOPQRSTUVWXYZ''"

definition lower_letters :: string where
  "lower_letters = ''abcdefghijklmnopqrstuvwxyz''"

definition digit_chars :: string where
  "digit_chars = ''0123456789''"

definition lower_char :: "char \<Rightarrow> char" where
  "lower_char c = (case map_of (zip upper_letters lower_letters) c of Some d \<Rightarrow> d | None \<Rightarrow> c)"

definition upper_char :: "char \<Rightarrow> char" where
  "upper_char c = (case map_of (zip lower_letters upper_letters) c of Some d \<Rightarrow> d | None \<Rightarrow> c)"

definition lower :: "string \<Rightarrow> string" where
  "lower s = map lower_char s"

definition upper :: "string \<Rightarrow> string" where
  "upper s = map upper_char s"

definition is_digit :: "char \<Rightarrow> bool" where
  "is_digit c \<longleftrightarrow> c \<in> set digit_chars"

text \<open>The class \<open>\w\<close> of \<open>re\<close>: letters, digits and the underscore.\<close>

definition is_word_char :: "char \<Rightarrow> bool" where
  "is_word_char c \<longleftrightarrow> c \<in> set upper_letters \<or> c \<in> set lower_letters \<or> is_digit c \<or> c = CHR ''_''"

text \<open>\<open>s.strip()\<close>\<close>

definition strip :: "string \<Rightarrow> string" where
  "strip s = rev (dropWhile is_space (rev (dropWhile is_space s)))"

text \<open>\<open>s.startswith(p)\<close> and \<open>s.endswith(p)\<close>\<close>

definition startswith :: "string \<Rightarrow> string \<Rightarrow> bool" where
  "startswith s p \<longleftrightarrow> take (length p) s = p"

definition endswith :: "string \<Rightarrow> string \<Rightarrow> bool" where
  "endswith s p \<longleftrightarrow> startswith (rev s) (rev p)"

text \<open>\<open>sub in s\<close>\<close>

fun contains :: "string \<Rightarrow> string \<Rightarrow> bool" where
  "contains [] sub = (sub = [])"
| "contains (c # cs) sub = (startswith (c # cs) sub \<or> contains cs sub)"

text \<open>
  \<open>s.replace(old, new)\<close> for a non-empty \<open>old\<close>: the occurrences are replaced from the
  left and do not overlap.
\<close>

function replace :: "string \<Rightarrow> string \<Rightarrow> string \<Rightarrow> string" where
  "replace old new s =
     (if s = [] \<or> old = [] then s
      else if startswith s old then new @ replace old new (drop (length old) s)
      else hd s # replace old new (tl s))"
  by pat_completeness auto
termination
  by (relation "measure (\<lambda>(old, new, s). length s)") auto

declare replace.simps [simp del]

text \<open>\<open>s.split(d)\<close> for a separator of one character.\<close>

fun split_char :: "char \<Rightarrow> string \<Rightarrow> string list" where
  "split_char d [] = [[]]"
| "split_char d (c # cs) =
     (if c = d then [] # split_char d cs
      else (case split_char d cs of w # ws \<Rightarrow> (c # w) # ws | [] \<Rightarrow> [[c]]))"

text \<open>
  The first occurrence of \<open>sep\<close> in \<open>s\<close>: the text before it and the text after it.
  \<open>s.split(sep, 1)\<close> is the list of the two when there is one.
\<close>

fun find_sub :: "string \<Rightarrow> string \<Rightarrow> (string \<times> string) option" where
  "find_sub sep [] = (if sep = [] then Some ([], []) else None)"
| "find_sub sep (c # cs) =
     (if startswith (c # cs) sep then Some ([], drop (length sep) (c # cs))
      else (case find_sub sep cs of None \<Rightarrow> None | Some (b, a) \<Rightarrow> Some (c # b, a)))"

text \<open>\<open>s.split()\<close>: the maximal runs of characters that are not white space.\<close>

function split_ws :: "string \<Rightarrow> string list" where
  "split_ws s =
     (let s' = dropWhile is_space s
      in if s' = [] then []
         else takeWhile (\<lambda>c. \<not> is_space c) s' # split_ws (dropWhile (\<lambda>c. \<not> is_space c) s'))"
  by pat_completeness auto
termination
proof (relation "measure length")
  fix s s' :: string
  assume s': "s' = dropWhile is_space s" and ne: "s' \<noteq> []"
  then have "\<not> is_space (hd s')"
    using hd_dropWhile by metis
  then have "length (dropWhile (\<lambda>c. \<not> is_space c) s') < length s'"
    using ne by (cases s') (auto simp: less_Suc_eq_le length_dropWhile_le)
  also have "length s' \<le> length s"
    using s' by (simp add: length_dropWhile_le)
  finally show "(dropWhile (\<lambda>c. \<not> is_space c) s', s) \<in> measure length"
    by simp
qed simp

declare split_ws.simps [simp del]

text \<open>\<open>sep.join(parts)\<close>\<close>

fun join :: "string \<Rightarrow> string list \<Rightarrow> string" where
  "join sep [] = []"
| "join sep [x] = x"
| "join sep (x # y # ys) = x @ sep @ join sep (y # ys)"

section \<open>Tokenizer (filter.py, tokenize)\<close>

text \<open>\<open>re.sub(r"([()])", r" \1 ", s)\<close>: every parenthesis is padded with blanks.\<close>

definition pad_parens :: "string \<Rightarrow> string" where
  "pad_parens s =
     concat (map (\<lambda>c. if c = CHR ''('' \<or> c = CHR '')'' then [CHR '' '', c, CHR '' ''] else [c]) s)"

definition is_keyword :: "string \<Rightarrow> bool" where
  "is_keyword w \<longleftrightarrow> upper w \<in> set [''OR'', ''NOT'', ''XOR'']"

text \<open>
  \<open>re.sub(r"\b(OR|NOT|XOR)\b", r" \1 ", s, flags=re.IGNORECASE)\<close>. A match starts and
  ends at a word boundary and consists of letters, so it is a maximal run of word
  characters; the run is padded when it spells one of the three words in any case.
\<close>

function pad_keywords :: "string \<Rightarrow> string" where
  "pad_keywords s =
     (if s = [] then []
      else if is_word_char (hd s) then
        (let w = takeWhile is_word_char s; r = dropWhile is_word_char s
         in (if is_keyword w then CHR '' '' # w @ [CHR '' ''] else w) @ pad_keywords r)
      else hd s # pad_keywords (tl s))"
  by pat_completeness auto
termination
proof (relation "measure length")
  fix s :: string and w r
  assume "\<not> s = []" "is_word_char (hd s)" "r = dropWhile is_word_char s"
  then show "(r, s) \<in> measure length"
    by (cases s) (auto simp: less_Suc_eq_le length_dropWhile_le)
qed auto

declare pad_keywords.simps [simp del]

definition tokenize :: "string \<Rightarrow> string list" where
  "tokenize s =
     (let s1 = pad_parens s;
          s2 = replace ''!'' '' ! '' s1;
          s3 = pad_keywords s2;
          s4 = replace ''||'' '' || '' s3
      in split_ws s4)"

section \<open>Numbers\<close>

text \<open>
  Python floats are modelled by exact rationals, and \<open>float(s)\<close> by the reading of a plain
  decimal literal: surrounding white space, an optional sign, digits with at most one
  point and at least one digit. The other spellings \<open>float\<close> accepts (exponents, \<open>inf\<close>,
  \<open>nan\<close>, underscores between digits) are outside the model and read as failures.
\<close>

datatype error = ValueError | IndexError

definition digit_val :: "char \<Rightarrow> nat" where
  "digit_val c = length (takeWhile (\<lambda>d. d \<noteq> c) digit_chars)"

definition digits_val :: "string \<Rightarrow> nat" where
  "digits_val ds = foldl (\<lambda>n c. 10 * n + digit_val c) 0 ds"

definition all_digits :: "string \<Rightarrow> bool" where
  "all_digits ds \<longleftrightarrow> list_all is_digit ds"

definition unsigned_float :: "string \<Rightarrow> rat option" where
  "unsigned_float u =
     (case split_char (CHR ''.'') u of
        [ip] \<Rightarrow> if ip \<noteq> [] \<and> all_digits ip then Some (of_nat (digits_val ip)) else None
      | [ip, fp] \<Rightarrow>
          if all_digits ip \<and> all_digits fp \<and> ip @ fp \<noteq> []
          then Some (of_nat (digits_val (ip @ fp)) / 10 ^ length fp) else None
      | _ \<Rightarrow> None)"

definition py_float :: "string \<Rightarrow> rat option" where
  "py_float s =
     (let t = strip s
      in if t \<noteq> [] \<and> hd t = CHR ''-'' then map_option uminus (unsigned_float (tl t))
         else if t \<noteq> [] \<and> hd t = CHR ''+'' then unsigned_float (tl t)
         else unsigned_float t)"

text \<open>\<open>str(n)\<close> for an integer.\<close>

definition digit_char :: "nat \<Rightarrow> char" where
  "digit_char d = digit_chars ! (d mod 10)"

fun str_nat :: "nat \<Rightarrow> string" where
  "str_nat n = (if n < 10 then [digit_char n] else str_nat (n div 10) @ [digit_char (n mod 10)])"

declare str_nat.simps [simp del]

definition str_int :: "int \<Rightarrow> string" where
  "str_int k = (if k < 0 then CHR ''-'' # str_nat (nat (- k)) else str_nat (nat k))"

section \<open>Entries (data.py, class Item)\<close>

text \<open>
  The marks of an entry are the fixed keys that \<open>Item.__init__\<close> fills with defaults.
  An entry of \<open>games\<close> is read with \<open>get("game", "")\<close> and \<open>get("encounter_methods", [])\<close>;
  the record holds the values so read. A reference of an evolution list is an integer or
  a string.
\<close>

record mark_set =
  flag :: bool
  lock :: bool
  source :: string
  origin :: string
  color :: string
  released :: bool

record game_entry =
  game :: string
  encounter_methods :: "string list"

datatype evo_ref = RefInt int | RefStr string

record item =
  number :: string
  name :: string
  form :: string
  categories :: "string list"
  tags :: "string list"
  marks :: mark_set
  stats :: "(string \<times> rat) list"
  games :: "game_entry list"
  evolutions :: "evo_ref list"
  has_alternate :: bool

type_synonym pred = "item \<Rightarrow> bool"

text \<open>
  What the filter reads from its surroundings: \<open>loaded_module f\<close> is the filter function
  of the module that \<open>_load_module(f)\<close> returns (\<open>None\<close> when it returns \<open>None\<close>), and
  \<open>items_dict\<close> is \<open>dex_adapter.get_items_dict()\<close>.
\<close>

record env =
  loaded_module :: "string \<Rightarrow> pred option"
  items_dict :: "string \<Rightarrow> item option"

section \<open>Primitive matchers (filter.py)\<close>

definition normalize_str :: "string \<Rightarrow> string" where
  "normalize_str s = replace '' '' [] (replace ''-'' [] (lower s))"

definition normalize_method :: "string \<Rightarrow> string" where
  "normalize_method m =
     (let m_low = lower m in if m_low \<in> set [''grass'', ''tallgrass''] then ''walk'' else m_low)"

definition match_name_filter :: "item \<Rightarrow> string \<Rightarrow> bool" where
  "match_name_filter itm v \<longleftrightarrow> contains (lower (name itm)) v"

definition match_number_filter :: "item \<Rightarrow> string \<Rightarrow> bool" where
  "match_number_filter itm v \<longleftrightarrow> number itm = v"

definition match_number_str_filter :: "item \<Rightarrow> string \<Rightarrow> bool" where
  "match_number_str_filter itm v \<longleftrightarrow> number itm = v"

definition match_category_filter :: "item \<Rightarrow> string \<Rightarrow> bool" where
  "match_category_filter itm v \<longleftrightarrow> list_ex (\<lambda>cat. contains (lower cat) v) (categories itm)"

definition match_tag_filter :: "item \<Rightarrow> string \<Rightarrow> bool" where
  "match_tag_filter itm v \<longleftrightarrow> list_ex (\<lambda>tag. contains (lower tag) v) (tags itm)"

text \<open>The glyphs U+2642 and U+2640 in UTF-8.\<close>

definition male_glyph :: string where
  "male_glyph = [CHR 0xE2, CHR 0x99, CHR 0x82]"

definition female_glyph :: string where
  "female_glyph = [CHR 0xE2, CHR 0x99, CHR 0x80]"

definition has_dot :: "string \<Rightarrow> bool" where
  "has_dot s \<longleftrightarrow> contains s ''.''"

definition match_form_filter :: "item \<Rightarrow> string option \<Rightarrow> bool" where
  "match_form_filter itm v =
     (case v of
        None \<Rightarrow> has_dot (number itm)
      | Some val \<Rightarrow>
          (let lower_val = lower val
           in if lower_val = ''variant'' then has_dot (number itm)
              else if lower_val = ''base'' then \<not> has_dot (number itm) \<and> has_alternate itm
              else if lower_val \<in> set [''all'', ''any''] then has_alternate itm
              else if lower_val = ''none'' then \<not> has_alternate itm
              else if lower_val = ''gender''
                then contains (form itm) male_glyph \<or> contains (form itm) female_glyph
              else if lower_val = ''male''
                then contains (form itm) male_glyph
                     \<or> (contains (lower (form itm)) ''male'' \<and> \<not> contains (lower (form itm)) ''female'')
              else if lower_val = ''female''
                then contains (form itm) female_glyph \<or> contains (lower (form itm)) ''female''
              else contains (lower (form itm)) lower_val))"

text \<open>\<open>str(v).lower()\<close> for every value of the marks.\<close>

definition str_bool :: "bool \<Rightarrow> string" where
  "str_bool b = (if b then ''True'' else ''False'')"

definition mark_values :: "mark_set \<Rightarrow> string list" where
  "mark_values m =
     [lower (str_bool (flag m)), lower (str_bool (lock m)), lower (source m),
      lower (origin m), lower (color m), lower (str_bool (released m))]"

definition match_mark_filter :: "item \<Rightarrow> string option \<Rightarrow> bool" where
  "match_mark_filter itm v =
     (case v of
        None \<Rightarrow> flag (marks itm) \<or> lock (marks itm)
      | Some val \<Rightarrow> list_ex (\<lambda>s. contains s val) (mark_values (marks itm)))"

definition match_color_filter :: "item \<Rightarrow> string option \<Rightarrow> bool" where
  "match_color_filter itm v =
     (case v of
        None \<Rightarrow> lower (color (marks itm)) \<noteq> ''gray''
      | Some val \<Rightarrow> lower (color (marks itm)) = val)"

text \<open>
  The comparison of a stat term is one of the five members of \<open>ops\<close> in
  \<open>_parse_filter_term\<close>, so the \<open>raise\<close> that ends \<open>match_stat_filter\<close> is never reached.
\<close>

datatype cmp_op = Le | Ge | Lt | Gt | Eq

definition stat_get :: "item \<Rightarrow> string \<Rightarrow> rat" where
  "stat_get itm k = (case map_of (stats itm) k of None \<Rightarrow> 0 | Some v \<Rightarrow> v)"

definition match_stat_filter :: "item \<Rightarrow> string \<times> cmp_op \<times> rat \<Rightarrow> bool" where
  "match_stat_filter itm criteria =
     (case criteria of (stat_name, operator, target_value) \<Rightarrow>
        (let stat_value =
               (if stat_name = ''total''
                then sum_list (map (stat_get itm) [''atk'', ''def'', ''spd'', ''spatk'', ''spdef'', ''hp''])
                else stat_get itm stat_name)
         in case operator of
              Gt \<Rightarrow> stat_value > target_value
            | Ge \<Rightarrow> stat_value \<ge> target_value
            | Lt \<Rightarrow> stat_value < target_value
            | Le \<Rightarrow> stat_value \<le> target_value
            | Eq \<Rightarrow> stat_value = target_value))"

definition match_in_filter :: "item \<Rightarrow> string \<times> string option \<Rightarrow> bool" where
  "match_in_filter itm game_method =
     (case game_method of (game_filter, method_filter) \<Rightarrow>
        (let game_norm = normalize_str game_filter;
             method_norm = (case method_filter of
                              None \<Rightarrow> None
                            | Some m \<Rightarrow> if m = [] then None else Some (normalize_method m))
         in list_ex (\<lambda>g. normalize_str (game g) = game_norm \<and>
                          (case method_norm of
                             None \<Rightarrow> True
                           | Some mn \<Rightarrow> if mn = [] then True
                                        else list_ex (\<lambda>m. normalize_method m = mn) (encounter_methods g)))
              (games itm)))"

definition match_method_filter :: "item \<Rightarrow> string \<Rightarrow> bool" where
  "match_method_filter itm method_value =
     (let method_norm = normalize_method method_value
      in list_ex (\<lambda>g. list_ex (\<lambda>m. normalize_method m = method_norm) (encounter_methods g)) (games itm))"

definition match_source_filter :: "item \<Rightarrow> string \<Rightarrow> bool" where
  "match_source_filter itm source_value =
     (let source_norm = normalize_str source_value;
          method_norm = normalize_method source_value
      in list_ex (\<lambda>g. normalize_str (game g) = source_norm \<or>
                       list_ex (\<lambda>m. normalize_method m = method_norm) (encounter_methods g))
           (games itm))"

text \<open>
  \<open>match_evol_filter\<close>: a reference that resolves to an entry is compared by that entry's
  name; one that does not is compared by its own text.
\<close>

definition resolve_ref :: "env \<Rightarrow> evo_ref \<Rightarrow> item option" where
  "resolve_ref e r =
     (case r of
        RefInt k \<Rightarrow> items_dict e (str_int k)
      | RefStr s \<Rightarrow> (case py_float s of None \<Rightarrow> None | Some _ \<Rightarrow> items_dict e s))"

definition str_ref :: "evo_ref \<Rightarrow> string" where
  "str_ref r = (case r of RefInt k \<Rightarrow> str_int k | RefStr s \<Rightarrow> s)"

definition match_evol_filter :: "env \<Rightarrow> item \<Rightarrow> string \<Rightarrow> bool" where
  "match_evol_filter e itm evol_sub0 =
     (let evol_sub = lower evol_sub0
      in list_ex (\<lambda>evo_ref.
            case resolve_ref e evo_ref of
              Some evo_item \<Rightarrow> contains (lower (name evo_item)) evol_sub
            | None \<Rightarrow> contains (lower (str_ref evo_ref)) evol_sub)
           (evolutions itm))"

definition match_number_range_filter :: "item \<Rightarrow> rat \<times> rat \<times> bool \<Rightarrow> bool" where
  "match_number_range_filter itm criteria =
     (case criteria of (start, end, include_forms) \<Rightarrow>
        (case py_float (number itm) of
           None \<Rightarrow> False
         | Some num \<Rightarrow>
             if \<not> (start \<le> num \<and> num \<le> end) then False
             else if \<not> include_forms \<and> has_dot (number itm) then False
             else True))"

definition match_module_filter :: "item \<Rightarrow> pred option \<Rightarrow> bool" where
  "match_module_filter itm func = (case func of None \<Rightarrow> True | Some f \<Rightarrow> f itm)"

section \<open>Term parser (filter.py, _parse_filter_term)\<close>

text \<open>
  The pair of a kind and a value that \<open>_parse_filter_term\<close> returns is a value of the
  datatype \<open>filter_term\<close>: one constructor for each kind, carrying the value of that kind.
\<close>

datatype filter_term =
    TName string
  | TNumber string
  | TNumberStr string
  | TNumberRange rat rat bool
  | TCategory string
  | TTag string
  | TForm "string option"
  | TMark "string option"
  | TColor "string option"
  | TStat string cmp_op rat
  | TIn string "string option"
  | TMethod string
  | TSource string
  | TEvol string
  | TModule "pred option"

text \<open>\<open>re.match(r"^\d+(\.\d+)?$", value)\<close>\<close>

definition is_number_literal :: "string \<Rightarrow> bool" where
  "is_number_literal v =
     (case split_char (CHR ''.'') v of
        [a] \<Rightarrow> a \<noteq> [] \<and> all_digits a
      | [a, b] \<Rightarrow> a \<noteq> [] \<and> all_digits a \<and> b \<noteq> [] \<and> all_digits b
      | _ \<Rightarrow> False)"

text \<open>The branch of \<open>_parse_filter_term\<close> for a term that starts with \<open>#\<close>.\<close>

definition parse_number_range :: "string \<Rightarrow> error + filter_term" where
  "parse_number_range term =
     (let token0 = strip (drop 1 term);
          include_forms = endswith token0 ''f'';
          token = (if include_forms then butlast token0 else token0)
      in if contains token ''-'' then
           (case split_char (CHR ''-'') token of
              [a, b] \<Rightarrow>
                (case py_float a of
                   None \<Rightarrow> Inl ValueError
                 | Some start \<Rightarrow>
                     (case py_float b of
                        None \<Rightarrow> Inl ValueError
                      | Some end \<Rightarrow> Inr (TNumberRange start end include_forms)))
            | _ \<Rightarrow> Inl ValueError)
         else
           (case py_float token of
              None \<Rightarrow> Inl ValueError
            | Some v \<Rightarrow> Inr (TNumberRange v v include_forms)))"

text \<open>The branch for a term that starts with \<open>stat:\<close>; \<open>ops\<close> is searched in its order.\<close>

definition ops :: "(string \<times> cmp_op) list" where
  "ops = [(''<='', Le), (''>='', Ge), (''<'', Lt), (''>'', Gt), (''='', Eq)]"

definition parse_stat :: "string \<Rightarrow> error + filter_term" where
  "parse_stat low =
     (let stat_expr = drop 5 low
      in case find (\<lambda>(sym, c). contains stat_expr sym) ops of
           None \<Rightarrow> Inl ValueError
         | Some (op, c) \<Rightarrow>
             (case find_sub op stat_expr of
                None \<Rightarrow> Inl ValueError
              | Some (n, v) \<Rightarrow>
                  (let stat_name0 = strip n;
                       val = strip v;
                       stat_name = (if stat_name0 = ''sat'' then ''spatk''
                                    else if stat_name0 = ''sdf'' then ''spdef''
                                    else stat_name0)
                   in case py_float val of
                        None \<Rightarrow> Inl ValueError
                      | Some x \<Rightarrow> Inr (TStat stat_name c x))))"

definition parse_filter_term :: "env \<Rightarrow> string \<Rightarrow> error + filter_term" where
  "parse_filter_term e term =
     (let low = strip (lower term)
      in if startswith low ''@'' then Inr (TCategory (strip (drop 1 term)))
         else if startswith term ''#'' then parse_number_range term
         else if startswith low ''in:'' then
           (case split_char (CHR '':'') (drop 3 term) of
              g # method \<Rightarrow>
                Inr (TIn (strip g) (case method of [] \<Rightarrow> None | m # _ \<Rightarrow> Some (strip m)))
            | [] \<Rightarrow> Inl ValueError)
         else if startswith low ''method:'' then Inr (TMethod (strip (drop 7 term)))
         else if startswith low ''source:'' then Inr (TSource (strip (drop 7 term)))
         else if startswith term ''+'' then Inr (TEvol (strip (drop 1 term)))
         else if startswith low ''module:'' then
           Inr (TModule (loaded_module e (strip (drop (length ''module:'') term))))
         else if startswith low ''num:'' then
           (let v = strip (drop 4 term)
            in if is_number_literal v then Inr (TNumber v) else Inr (TNumberStr v))
         else if startswith low ''name:'' then Inr (TName (drop 5 low))
         else if startswith low ''cat:'' then Inr (TCategory (drop 4 low))
         else if startswith low ''tag:'' then Inr (TTag (drop 4 low))
         else if startswith low ''form:'' then
           (let v = strip (drop 5 term) in Inr (TForm (if v = [] then None else Some v)))
         else if startswith low ''mark:'' then Inr (TMark (Some (drop 5 low)))
         else if low = ''mark'' then Inr (TMark None)
         else if startswith low ''color:'' then Inr (TColor (Some (drop 6 low)))
         else if low = ''color'' then Inr (TColor None)
         else if startswith low ''stat:'' then parse_stat low
         else Inr (TName low))"

text \<open>
  The table \<open>mapping\<close> of \<open>_parse_primary\<close> and the closure built from it:
  \<open>lambda itm, v=val, f=func: f(itm, v)\<close>.
\<close>

definition apply_term :: "env \<Rightarrow> filter_term \<Rightarrow> pred" where
  "apply_term e t = (\<lambda>itm.
     case t of
       TName v \<Rightarrow> match_name_filter itm v
     | TNumber v \<Rightarrow> match_number_filter itm v
     | TNumberStr v \<Rightarrow> match_number_str_filter itm v
     | TNumberRange a b f \<Rightarrow> match_number_range_filter itm (a, b, f)
     | TCategory v \<Rightarrow> match_category_filter itm v
     | TTag v \<Rightarrow> match_tag_filter itm v
     | TForm v \<Rightarrow> match_form_filter itm v
     | TMark v \<Rightarrow> match_mark_filter itm v
     | TColor v \<Rightarrow> match_color_filter itm v
     | TStat n c x \<Rightarrow> match_stat_filter itm (n, c, x)
     | TIn g m \<Rightarrow> match_in_filter itm (g, m)
     | TMethod v \<Rightarrow> match_method_filter itm v
     | TSource v \<Rightarrow> match_source_filter itm v
     | TEvol v \<Rightarrow> match_evol_filter e itm v
     | TModule f \<Rightarrow> match_module_filter itm f)"

section \<open>Expression parser (filter.py)\<close>

text \<open>
  The five parsers of \<open>filter.py\<close> call each other, and the three loops go on from the
  index the parser they call returns. They are one function \<open>parse\<close> here, over the
  datatype of its calls: \<open>POr i\<close> is \<open>_parse_or(toks, i)\<close>, and \<open>OrLoop l i\<close> is the
  \<open>while\<close> loop of \<open>_parse_or\<close> entered with the predicate \<open>l\<close> and the index \<open>i\<close>; the
  others likewise. The result \<open>None\<close> is a call that does not return. The body of the
  parsers is \<open>parse_step\<close>, in which \<open>rec\<close> stands for the calls they make.
\<close>

datatype pcall =
    POr nat | PXor nat | PAnd nat | PNot nat | PPrimary nat
  | OrLoop pred nat | XorLoop pred nat | AndLoop pred nat

definition is_neg :: "string \<Rightarrow> bool" where
  "is_neg tok \<longleftrightarrow> tok = ''!'' \<or> upper tok = ''NOT''"

text \<open>The inner loop of \<open>_parse_not\<close>, which steps over every negation that follows.\<close>

function neg_loop :: "string list \<Rightarrow> nat \<Rightarrow> nat" where
  "neg_loop toks i = (if i < length toks \<and> is_neg (toks ! i) then neg_loop toks (i + 1) else i)"
  by pat_completeness auto
termination
  by (relation "measure (\<lambda>(toks, i). length toks - i)") auto

declare neg_loop.simps [simp del]

type_synonym presult = "(error + pred \<times> nat) option"

text \<open>
  \<open>and_then m k\<close> is the sequence \<open>x = m; k(x)\<close> of the source: an exception of \<open>m\<close>, or
  \<open>m\<close> not returning, ends it.
\<close>

definition and_then :: "(error + 'a) option \<Rightarrow> ('a \<Rightarrow> (error + 'b) option) \<Rightarrow> (error + 'b) option" where
  "and_then m k = (case m of None \<Rightarrow> None | Some (Inl err) \<Rightarrow> Some (Inl err) | Some (Inr x) \<Rightarrow> k x)"

lemma and_then_bind:
  "and_then m k = Option.bind m (\<lambda>r. case r of Inl err \<Rightarrow> Some (Inl err) | Inr x \<Rightarrow> k x)"
  by (simp add: and_then_def split: option.splits sum.splits)

lemma and_then_mono [partial_function_mono]:
  assumes B: "mono_option B" and C: "\<And>y. mono_option (\<lambda>f. C y f)"
  shows "mono_option (\<lambda>f. and_then (B f) (\<lambda>y. C y f))"
  unfolding and_then_bind
proof (rule bind_mono [OF B])
  fix r
  show "mono_option (\<lambda>f. case r of Inl err \<Rightarrow> Some (Inl err) | Inr x \<Rightarrow> C x f)"
    by (cases r) (simp_all add: C option.const_mono)
qed

definition parse_step :: "(pcall \<Rightarrow> presult) \<Rightarrow> env \<Rightarrow> string list \<Rightarrow> pcall \<Rightarrow> presult" where
  "parse_step rec e toks c =
     (case c of
        POr i \<Rightarrow>
          and_then (rec (PXor i)) (\<lambda>(l, j). rec (OrLoop l j))
      | OrLoop l i \<Rightarrow>
          if i < length toks \<and> upper (toks ! i) \<in> set [''OR'', ''||''] then
            and_then (rec (PXor (i + 1)))
              (\<lambda>(r, j). rec (OrLoop (\<lambda>itm. l itm \<or> r itm) j))
          else Some (Inr (l, i))
      | PXor i \<Rightarrow>
          and_then (rec (PAnd i)) (\<lambda>(l, j). rec (XorLoop l j))
      | XorLoop l i \<Rightarrow>
          if i < length toks \<and> upper (toks ! i) = ''XOR'' then
            and_then (rec (PAnd (i + 1)))
              (\<lambda>(r, j). rec (XorLoop (\<lambda>itm. l itm \<noteq> r itm) j))
          else Some (Inr (l, i))
      | PAnd i \<Rightarrow>
          and_then (rec (PNot i)) (\<lambda>(l, j). rec (AndLoop l j))
      | AndLoop l i \<Rightarrow>
          if i < length toks \<and> toks ! i \<notin> set ['')'', ''OR'', ''||'', ''XOR''] then
            if upper (toks ! i) \<in> set [''AND'', ''&&''] then rec (AndLoop l (i + 1))
            else
              and_then (rec (PNot i))
                (\<lambda>(r, j). rec (AndLoop (\<lambda>itm. l itm \<and> r itm) j))
          else Some (Inr (l, i))
      | PNot i \<Rightarrow>
          if i < length toks \<and> is_neg (toks ! i) then
            and_then (rec (PNot (neg_loop toks i)))
              (\<lambda>(op, j). Some (Inr (\<lambda>itm. \<not> op itm, j)))
          else rec (PPrimary i)
      | PPrimary i \<Rightarrow>
          if i \<ge> length toks then Some (Inl ValueError)
          else if toks ! i = ''('' then
            and_then (rec (POr (i + 1)))
              (\<lambda>(expr, j).
                  if j \<ge> length toks \<or> toks ! j \<noteq> '')'' then Some (Inl ValueError)
                  else Some (Inr (expr, j + 1)))
          else
            (case parse_filter_term e (toks ! i) of
               Inl err \<Rightarrow> Some (Inl err)
             | Inr t \<Rightarrow> Some (Inr (apply_term e t, i + 1))))"

lemma case_prod_mono:
  assumes "\<And>a b. mono_option (\<lambda>f. C a b f)"
  shows "mono_option (\<lambda>f. case y of (a, b) \<Rightarrow> C a b f)"
  by (cases y) (simp add: assms)

lemma case_sum_mono:
  assumes "\<And>a. mono_option (\<lambda>f. A a f)" and "\<And>b. mono_option (\<lambda>f. B b f)"
  shows "mono_option (\<lambda>f. case s of Inl a \<Rightarrow> A a f | Inr b \<Rightarrow> B b f)"
  by (cases s) (simp_all add: assms)

lemma parse_step_mono [partial_function_mono]:
  assumes R: "\<And>c. mono_option (\<lambda>f. R f c)"
  shows "mono_option (\<lambda>f. parse_step (R f) e toks c)"
  unfolding parse_step_def
  by (cases c)
     (auto intro!: and_then_mono case_prod_mono Partial_Function.if_mono option.const_mono R)

partial_function (option) parse :: "env \<Rightarrow> string list \<Rightarrow> pcall \<Rightarrow> (error + pred \<times> nat) option" where
  "parse e toks c = parse_step (parse e toks) e toks c"

definition parse_or :: "env \<Rightarrow> string list \<Rightarrow> nat \<Rightarrow> presult" where
  "parse_or e toks i = parse e toks (POr i)"

definition parse_xor :: "env \<Rightarrow> string list \<Rightarrow> nat \<Rightarrow> presult" where
  "parse_xor e toks i = parse e toks (PXor i)"

definition parse_and :: "env \<Rightarrow> string list \<Rightarrow> nat \<Rightarrow> presult" where
  "parse_and e toks i = parse e toks (PAnd i)"

definition parse_not :: "env \<Rightarrow> string list \<Rightarrow> nat \<Rightarrow> presult" where
  "parse_not e toks i = parse e toks (PNot i)"

definition parse_primary :: "env \<Rightarrow> string list \<Rightarrow> nat \<Rightarrow> presult" where
  "parse_primary e toks i = parse e toks (PPrimary i)"

definition parse_expression :: "env \<Rightarrow> string list \<Rightarrow> (error + pred) option" where
  "parse_expression e toks =
     and_then (parse_or e toks 0)
       (\<lambda>(expr, idx). if idx \<noteq> length toks then Some (Inl ValueError) else Some (Inr expr))"

section \<open>Evaluation helpers (filter.py)\<close>

definition compile :: "env \<Rightarrow> string \<Rightarrow> (error + pred) option" where
  "compile e filter_string = parse_expression e (tokenize filter_string)"

text \<open>
  \<open>_safe_compile\<close> returns the matcher, or \<open>None\<close> for any exception of \<open>_compile\<close>: the
  inner option. The outer option is the one of \<open>parse\<close>.
\<close>

definition safe_compile :: "env \<Rightarrow> string \<Rightarrow> pred option option" where
  "safe_compile e filter_string =
     map_option (\<lambda>r. case r of Inl err \<Rightarrow> None | Inr m \<Rightarrow> Some m) (compile e filter_string)"

definition filter_items :: "env \<Rightarrow> item list \<Rightarrow> string \<Rightarrow> item list option" where
  "filter_items e items filter_string0 =
     (let filter_string = strip filter_string0
      in if filter_string = [] then Some items
         else if startswith (lower filter_string) ''module:'' then
           (case loaded_module e (strip (drop (length ''module:'') filter_string)) of
              None \<Rightarrow> Some items
            | Some compiled_filter \<Rightarrow> Some (filter compiled_filter items))
         else
           Option.bind (safe_compile e filter_string) (\<lambda>matcher.
             case matcher of
               None \<Rightarrow> Some items
             | Some m \<Rightarrow> Some (filter m items)))"

text \<open>
  \<open>filter_item\<close>: the dictionary it is given is read at \<open>"key"\<close> only, so the model takes
  the value found there (\<open>None\<close> when the key is absent, which reads as the empty string).
\<close>

definition filter_item :: "env \<Rightarrow> string option \<Rightarrow> string \<Rightarrow> bool option" where
  "filter_item e item_key filter_string =
     (let key = (case item_key of None \<Rightarrow> [] | Some k \<Rightarrow> k)
      in case items_dict e key of
           None \<Rightarrow> Some False
         | Some itm \<Rightarrow>
             Option.bind (safe_compile e filter_string) (\<lambda>matcher.
               case matcher of
                 None \<Rightarrow> Some False
               | Some m \<Rightarrow> Some (m itm)))"

section \<open>Module filter string (module_loader.py, build_module_filter_string)\<close>

text \<open>
  The module document is read at fixed keys; a dictionary of the document is the list of
  its items in their order, a value that is tested the truth of that value, and a missing
  dictionary the empty list.
\<close>

record module_doc =
  enabled :: bool
  filter_constraints :: string
  regions :: "(string \<times> bool) list"
  hcv_by_form_name :: "(string \<times> bool) list"
  hcv_by_species_name :: "(string \<times> bool) list"
  hcv_special_handling :: "(string \<times> bool) list"
  hiv_battle_by_species_name :: "(string \<times> bool) list"
  hiv_battle_by_form_name :: "(string \<times> bool) list"
  hiv_item_by_species_name :: "(string \<times> bool) list"
  hiv_item_by_form_name :: "(string \<times> bool) list"
  hiv_special_handling :: "(string \<times> bool) list"

definition REGION_RANGES :: "(string \<times> nat \<times> nat) list" where
  "REGION_RANGES =
     [(''Kanto'', 1, 151), (''Johto'', 152, 251), (''Hoenn'', 252, 386), (''Sinnoh'', 387, 493),
      (''Unova'', 494, 649), (''Kalos'', 650, 721), (''Alola'', 722, 807), (''Unknown'', 808, 809),
      (''Galar'', 810, 898), (''Hisui'', 899, 905), (''Paldea'', 906, 1025)]"

definition region_tokens :: "(string \<times> bool) list \<Rightarrow> string list" where
  "region_tokens rs =
     concat (map (\<lambda>(region, en).
        case map_of REGION_RANGES region of
          Some (start, end) \<Rightarrow>
            if \<not> en then [''#'' @ str_nat start @ ''-'' @ str_nat end @ ''f''] else []
        | None \<Rightarrow> []) rs)"

definition form_tokens :: "(string \<times> bool) list \<Rightarrow> string list" where
  "form_tokens fs = concat (map (\<lambda>(form, inc). if \<not> inc then [''form:'' @ lower form] else []) fs)"

definition species_tokens :: "(string \<times> bool) list \<Rightarrow> string list" where
  "species_tokens ss =
     (let species = concat (map (\<lambda>(s, inc). if \<not> inc then [lower s] else []) ss)
      in if species \<noteq> [] then [''(('' @ join '' OR '' species @ '') AND form:variant)''] else [])"

definition hcv_special :: "string \<Rightarrow> string list" where
  "hcv_special kl =
     (if kl = ''gender_cosmetic'' then [''form:'' @ female_glyph]
      else if kl = ''gender_forms'' then [''form:female'']
      else if kl = ''alcremie_sweets'' then [''#869.01-869.06f'']
      else if kl = ''alcremie_full'' then [''#869.07-869.62f'']
      else if kl = ''zygarde'' then [''(zygarde AND form:variant)'']
      else if kl = ''zygarde_power_construct'' then [''(zygarde AND form:construct)'']
      else if kl = ''minior_core'' then [''(minior AND NOT form:meteor AND form:variant)'']
      else if kl = ''pikachu_hat'' then [''(pikachu AND form:cap)'']
      else [kl])"

definition hiv_special :: "string \<Rightarrow> string list" where
  "hiv_special kl =
     (if kl = ''fusion''
        then [''#646.01f'', ''#646.02f'', ''#800.01f'', ''#800.02f'', ''#898.01f'', ''#898.02f'']
      else if kl = ''pikachu_cosplay'' then [''#25.01-25.06f'']
      else if kl = ''lgpe_partner'' then [''#25.15'', ''#133.01'']
      else if kl = ''floette_eternal'' then [''#670.05f'']
      else if kl = ''minior_meteor'' then [''(form:meteor AND form:variant)'']
      else if kl = ''therian'' then [''form:therian'']
      else [kl])"

definition special_tokens :: "(string \<Rightarrow> string list) \<Rightarrow> (string \<times> bool) list \<Rightarrow> string list" where
  "special_tokens table hs =
     concat (map (\<lambda>(key, inc). if \<not> inc then table (lower key) else []) hs)"

text \<open>The list \<open>tokens\<close> at the end of \<open>build_module_filter_string\<close>.\<close>

definition module_tokens :: "module_doc \<Rightarrow> string list" where
  "module_tokens doc =
     (let fc = strip (filter_constraints doc)
      in (if fc \<noteq> [] then [''('' @ fc @ '')''] else [])
         @ region_tokens (regions doc)
         @ form_tokens (hcv_by_form_name doc)
         @ species_tokens (hcv_by_species_name doc)
         @ special_tokens hcv_special (hcv_special_handling doc)
         @ species_tokens (hiv_battle_by_species_name doc)
         @ form_tokens (hiv_battle_by_form_name doc)
         @ species_tokens (hiv_item_by_species_name doc)
         @ form_tokens (hiv_item_by_form_name doc)
         @ special_tokens hiv_special (hiv_special_handling doc))"

definition build_module_filter_string :: "module_doc \<Rightarrow> string" where
  "build_module_filter_string doc =
     (let tokens = module_tokens doc
      in if tokens \<noteq> [] then ''NOT ('' @ join '' OR '' tokens @ '')'' else [])"

section \<open>Module filter compiler (module_loader.py)\<close>

definition tokenize_code :: "string \<Rightarrow> string list" where
  "tokenize_code s =
     (let s1 = pad_parens s;
          s2 = replace ''!'' '' ! '' s1;
          s3 = pad_keywords s2;
          s4 = replace ''||'' '' || '' s3
      in split_ws s4)"

text \<open>
  The parsers of \<open>module_loader.py\<close> build the text of a Python expression, which
  \<open>compile_module_filter\<close> executes as the body of \<open>_f(item)\<close>. The expressions they can
  build are the values of \<open>pycode\<close>:
  \<open>Call t\<close> is \<open>match_K(item, repr(v))\<close> for the term \<open>t\<close> of kind \<open>K\<close> and value \<open>v\<close>,
  \<open>PyNot a\<close> is \<open>(not a)\<close>, \<open>PyAnd a b\<close> is \<open>(a and b)\<close>,
  \<open>PyXor a b\<close> is \<open>(bool(a) ^ bool(b))\<close> and \<open>PyOr a b\<close> is \<open>(a or b)\<close>.
  \<open>exec_code\<close> is their evaluation by Python, with the matchers of \<open>filter.py\<close> in scope.
\<close>

datatype pycode =
    Call filter_term
  | PyNot pycode
  | PyAnd pycode pycode
  | PyXor pycode pycode
  | PyOr pycode pycode

fun exec_code :: "env \<Rightarrow> pycode \<Rightarrow> pred" where
  "exec_code e (Call t) = apply_term e t"
| "exec_code e (PyNot a) = (\<lambda>itm. \<not> exec_code e a itm)"
| "exec_code e (PyAnd a b) = (\<lambda>itm. exec_code e a itm \<and> exec_code e b itm)"
| "exec_code e (PyXor a b) = (\<lambda>itm. exec_code e a itm \<noteq> exec_code e b itm)"
| "exec_code e (PyOr a b) = (\<lambda>itm. exec_code e a itm \<or> exec_code e b itm)"

text \<open>\<open>code_for_term\<close>: the kind \<open>module\<close> is not in its table.\<close>

definition code_for_term :: "filter_term \<Rightarrow> error + pycode" where
  "code_for_term t = (case t of TModule f \<Rightarrow> Inl ValueError | _ \<Rightarrow> Inr (Call t))"

datatype ccall =
    COr nat | CXor nat | CAnd nat | CNot nat | CPrimary nat
  | COrLoop pycode nat | CXorLoop pycode nat | CAndLoop pycode nat

type_synonym cresult = "(error + pycode \<times> nat) option"

text \<open>
  The loop of \<open>code_parse_not\<close> counts the negations it steps over, and reads
  \<open>tokens[i]\<close> without a test of \<open>i\<close>.
\<close>

function code_neg_loop :: "string list \<Rightarrow> nat \<Rightarrow> nat \<Rightarrow> error + nat \<times> nat" where
  "code_neg_loop tokens i cnt =
     (if i \<ge> length tokens then Inl IndexError
      else if is_neg (tokens ! i) then code_neg_loop tokens (i + 1) (cnt + 1)
      else Inr (cnt, i))"
  by pat_completeness auto
termination
  by (relation "measure (\<lambda>(tokens, i, cnt). length tokens - i)") auto

declare code_neg_loop.simps [simp del]

definition code_step :: "(ccall \<Rightarrow> cresult) \<Rightarrow> env \<Rightarrow> string list \<Rightarrow> ccall \<Rightarrow> cresult" where
  "code_step rec e tokens c =
     (case c of
        CPrimary i \<Rightarrow>
          if i \<ge> length tokens then Some (Inl IndexError)
          else if tokens ! i = ''('' then
            and_then (rec (COr (i + 1)))
              (\<lambda>(expr, j).
                  if j \<ge> length tokens then Some (Inl IndexError)
                  else if tokens ! j \<noteq> '')'' then Some (Inl ValueError)
                  else Some (Inr (expr, j + 1)))
          else
            (case parse_filter_term e (tokens ! i) of
               Inl err \<Rightarrow> Some (Inl err)
             | Inr t \<Rightarrow>
                 (case code_for_term t of
                    Inl err \<Rightarrow> Some (Inl err)
                  | Inr code \<Rightarrow> Some (Inr (code, i + 1))))
      | CNot i \<Rightarrow>
          if i \<ge> length tokens then Some (Inl IndexError)
          else if is_neg (tokens ! i) then
            (case code_neg_loop tokens i 0 of
               Inl err \<Rightarrow> Some (Inl err)
             | Inr (cnt, i') \<Rightarrow>
                 and_then (rec (CNot i'))
                   (\<lambda>(operand, j).
                      if cnt mod 2 \<noteq> 0 then Some (Inr (PyNot operand, j))
                      else Some (Inr (operand, j))))
          else rec (CPrimary i)
      | CAnd i \<Rightarrow>
          and_then (rec (CNot i)) (\<lambda>(left, j). rec (CAndLoop left j))
      | CAndLoop left i \<Rightarrow>
          if i < length tokens \<and> tokens ! i \<notin> set ['')'', ''OR'', ''||'', ''XOR''] then
            if upper (tokens ! i) \<in> set [''AND'', ''&&''] then rec (CAndLoop left (i + 1))
            else
              and_then (rec (CNot i)) (\<lambda>(right, j). rec (CAndLoop (PyAnd left right) j))
          else Some (Inr (left, i))
      | CXor i \<Rightarrow>
          and_then (rec (CAnd i)) (\<lambda>(left, j). rec (CXorLoop left j))
      | CXorLoop left i \<Rightarrow>
          if i < length tokens \<and> upper (tokens ! i) = ''XOR'' then
            and_then (rec (CAnd (i + 1))) (\<lambda>(right, j). rec (CXorLoop (PyXor left right) j))
          else Some (Inr (left, i))
      | COr i \<Rightarrow>
          and_then (rec (CXor i)) (\<lambda>(left, j). rec (COrLoop left j))
      | COrLoop left i \<Rightarrow>
          if i < length tokens \<and> upper (tokens ! i) \<in> set [''OR'', ''||''] then
            and_then (rec (CXor (i + 1))) (\<lambda>(right, j). rec (COrLoop (PyOr left right) j))
          else Some (Inr (left, i)))"

lemma code_step_mono [partial_function_mono]:
  assumes R: "\<And>c. mono_option (\<lambda>f. R f c)"
  shows "mono_option (\<lambda>f. code_step (R f) e tokens c)"
  unfolding code_step_def
  by (cases c)
     (auto intro!: and_then_mono case_prod_mono case_sum_mono Partial_Function.if_mono
                   option.const_mono R)

partial_function (option) code_parse :: "env \<Rightarrow> string list \<Rightarrow> ccall \<Rightarrow> (error + pycode \<times> nat) option" where
  "code_parse e tokens c = code_step (code_parse e tokens) e tokens c"

definition code_parse_or :: "env \<Rightarrow> string list \<Rightarrow> nat \<Rightarrow> cresult" where
  "code_parse_or e tokens i = code_parse e tokens (COr i)"

definition code_parse_xor :: "env \<Rightarrow> string list \<Rightarrow> nat \<Rightarrow> cresult" where
  "code_parse_xor e tokens i = code_parse e tokens (CXor i)"

definition code_parse_and :: "env \<Rightarrow> string list \<Rightarrow> nat \<Rightarrow> cresult" where
  "code_parse_and e tokens i = code_parse e tokens (CAnd i)"

definition code_parse_not :: "env \<Rightarrow> string list \<Rightarrow> nat \<Rightarrow> cresult" where
  "code_parse_not e tokens i = code_parse e tokens (CNot i)"

definition code_parse_primary :: "env \<Rightarrow> string list \<Rightarrow> nat \<Rightarrow> cresult" where
  "code_parse_primary e tokens i = code_parse e tokens (CPrimary i)"

definition compile_filter_string :: "env \<Rightarrow> string \<Rightarrow> (error + pycode) option" where
  "compile_filter_string e s =
     and_then (code_parse_or e (tokenize_code s) 0)
       (\<lambda>(expr, idx).
          if idx \<noteq> length (tokenize_code s) then Some (Inl ValueError) else Some (Inr expr))"

definition compile_module_filter :: "env \<Rightarrow> string \<Rightarrow> (error + pred) option" where
  "compile_module_filter e filter_string =
     (if strip filter_string = [] then Some (Inr (\<lambda>itm. True))
      else and_then (compile_filter_string e filter_string) (\<lambda>expr. Some (Inr (exec_code e expr))))"

section \<open>The cache of a loaded module (module_loader.py, load_module)\<close>

text \<open>
  \<open>load_module\<close> wraps the compiled predicate \<open>func\<close> in the closure \<open>cached\<close> over a
  dictionary \<open>cache\<close> that starts empty. The model passes the dictionary in and out. A call
  of \<open>func\<close> may have an effect, such as counting its calls: \<open>func\<close> takes the state \<open>w\<close>
  that it acts on and returns the new one.
\<close>

type_synonym cache = "string \<Rightarrow> bool option"

definition cached :: "(item \<Rightarrow> 'w \<Rightarrow> bool \<times> 'w) \<Rightarrow> item \<Rightarrow> cache \<times> 'w \<Rightarrow> bool \<times> cache \<times> 'w" where
  "cached func itm st =
     (case st of (cache, w) \<Rightarrow>
        (let key = number itm
         in case cache key of
              Some b \<Rightarrow> (b, cache, w)
            | None \<Rightarrow> (case func itm w of (res, w') \<Rightarrow> (res, cache(key \<mapsto> res), w'))))"

text \<open>A predicate without effect, and one that counts its calls.\<close>

definition pure_pred :: "pred \<Rightarrow> item \<Rightarrow> 'w \<Rightarrow> bool \<times> 'w" where
  "pure_pred p itm w = (p itm, w)"

definition counting :: "pred \<Rightarrow> item \<Rightarrow> nat \<Rightarrow> bool \<times> nat" where
  "counting p itm n = (p itm, n + 1)"

declare parse.simps [code]
declare code_parse.simps [code]

section \<open>Terms of the statements\<close>

text \<open>The verdict of a compiled predicate on an entry, or the failure of the compilation.\<close>

definition run_on :: "(error + pred) option \<Rightarrow> item \<Rightarrow> (error + bool) option" where
  "run_on r itm =
     (case r of None \<Rightarrow> None | Some (Inl err) \<Rightarrow> Some (Inl err) | Some (Inr p) \<Rightarrow> Some (Inr (p itm)))"

text \<open>Surroundings with no module and no entry, and an entry with the defaults of \<open>Item\<close>.\<close>

definition env0 :: env where
  "env0 = \<lparr>loaded_module = (\<lambda>f. None), items_dict = (\<lambda>k. None)\<rparr>"

definition default_marks :: mark_set where
  "default_marks = \<lparr>flag = False, lock = False, source = ''none.png'', origin = ''none.png'',
     color = ''gray'', released = True\<rparr>"

definition entry :: "string \<Rightarrow> string \<Rightarrow> item" where
  "entry num nm = \<lparr>number = num, name = nm, form = [], categories = [], tags = [],
     marks = default_marks, stats = [], games = [], evolutions = [], has_alternate = False\<rparr>"


text \<open>The number that an identifier reads as lies between two bounds.\<close>

definition in_range :: "rat \<Rightarrow> rat \<Rightarrow> string \<Rightarrow> bool" where
  "in_range lo hi s = (case py_float s of None \<Rightarrow> False | Some x \<Rightarrow> lo \<le> x \<and> x \<le> hi)"

text \<open>A module document in which nothing is excluded.\<close>

definition no_exclusions :: "module_doc \<Rightarrow> bool" where
  "no_exclusions doc \<longleftrightarrow>
     strip (filter_constraints doc) = []
     \<and> list_all snd (regions doc)
     \<and> list_all snd (hcv_by_form_name doc)
     \<and> list_all snd (hcv_by_species_name doc)
     \<and> list_all snd (hcv_special_handling doc)
     \<and> list_all snd (hiv_battle_by_species_name doc)
     \<and> list_all snd (hiv_battle_by_form_name doc)
     \<and> list_all snd (hiv_item_by_species_name doc)
     \<and> list_all snd (hiv_item_by_form_name doc)
     \<and> list_all snd (hiv_special_handling doc)"

definition plain_doc :: module_doc where
  "plain_doc = \<lparr>enabled = True, filter_constraints = ''  '',
     regions = [(''Kanto'', True), (''Johto'', True)],
     hcv_by_form_name = [(''Alolan'', True)], hcv_by_species_name = [],
     hcv_special_handling = [(''gender_cosmetic'', True)],
     hiv_battle_by_species_name = [], hiv_battle_by_form_name = [],
     hiv_item_by_species_name = [], hiv_item_by_form_name = [],
     hiv_special_handling = [(''fusion'', True)]\<rparr>"

text \<open>
  A query that is one term: the tokenizer leaves it whole, and it is no operator, no
  negation and no parenthesis, in any letter case.
\<close>

definition is_operand :: "string \<Rightarrow> bool" where
  "is_operand a \<longleftrightarrow>
     tokenize a = [a] \<and> a \<notin> set [''('', '')'', ''!'']
     \<and> upper a \<notin> set [''AND'', ''&&'', ''OR'', ''||'', ''XOR'', ''NOT'']"

text \<open>
  What a query should compile to, built from its terms: the matcher of one term, or the
  exception of that term, and the negation, conjunction, exclusive disjunction and
  disjunction of two such results. An exception of the left operand comes first.
\<close>

definition term_pred :: "env \<Rightarrow> string \<Rightarrow> error + pred" where
  "term_pred e a =
     (case parse_filter_term e a of Inl err \<Rightarrow> Inl err | Inr t \<Rightarrow> Inr (apply_term e t))"

definition not_of :: "error + pred \<Rightarrow> error + pred" where
  "not_of x = (case x of Inl err \<Rightarrow> Inl err | Inr p \<Rightarrow> Inr (\<lambda>itm. \<not> p itm))"

definition and_of :: "error + pred \<Rightarrow> error + pred \<Rightarrow> error + pred" where
  "and_of x y =
     (case x of Inl err \<Rightarrow> Inl err
      | Inr p \<Rightarrow> (case y of Inl err \<Rightarrow> Inl err | Inr q \<Rightarrow> Inr (\<lambda>itm. p itm \<and> q itm)))"

definition xor_of :: "error + pred \<Rightarrow> error + pred \<Rightarrow> error + pred" where
  "xor_of x y =
     (case x of Inl err \<Rightarrow> Inl err
      | Inr p \<Rightarrow> (case y of Inl err \<Rightarrow> Inl err | Inr q \<Rightarrow> Inr (\<lambda>itm. p itm \<noteq> q itm)))"

definition or_of :: "error + pred \<Rightarrow> error + pred \<Rightarrow> error + pred" where
  "or_of x y =
     (case x of Inl err \<Rightarrow> Inl err
      | Inr p \<Rightarrow> (case y of Inl err \<Rightarrow> Inl err | Inr q \<Rightarrow> Inr (\<lambda>itm. p itm \<or> q itm)))"


text \<open>
  Surroundings with one entry under the key \<open>25\<close> and one module file, named \<open>m (\<close>, whose
  predicate rejects every entry.
\<close>

definition env1 :: env where
  "env1 = \<lparr>loaded_module = (\<lambda>f. if f = ''m ('' then Some (\<lambda>itm. False) else None),
     items_dict = (\<lambda>k. if k = ''25'' then Some (entry ''25'' ''a'') else None)\<rparr>"

section \<open>The parsers, one by one\<close>

text \<open>Each of the following equations is one function of \<open>filter.py\<close>, or one of its loops.\<close>

lemma parse_POr:
  "parse e toks (POr i) = and_then (parse e toks (PXor i)) (\<lambda>(l, j). parse e toks (OrLoop l j))"
  by (subst parse.simps) (simp add: parse_step_def)

lemma parse_PXor:
  "parse e toks (PXor i) = and_then (parse e toks (PAnd i)) (\<lambda>(l, j). parse e toks (XorLoop l j))"
  by (subst parse.simps) (simp add: parse_step_def)

lemma parse_PAnd:
  "parse e toks (PAnd i) = and_then (parse e toks (PNot i)) (\<lambda>(l, j). parse e toks (AndLoop l j))"
  by (subst parse.simps) (simp add: parse_step_def)

lemma parse_PNot:
  "parse e toks (PNot i) =
     (if i < length toks \<and> is_neg (toks ! i) then
        and_then (parse e toks (PNot (neg_loop toks i))) (\<lambda>(op, j). Some (Inr (\<lambda>itm. \<not> op itm, j)))
      else parse e toks (PPrimary i))"
  by (subst parse.simps) (simp add: parse_step_def)

lemma parse_PPrimary:
  "parse e toks (PPrimary i) =
     (if i \<ge> length toks then Some (Inl ValueError)
      else if toks ! i = ''('' then
        and_then (parse e toks (POr (i + 1)))
          (\<lambda>(expr, j).
              if j \<ge> length toks \<or> toks ! j \<noteq> '')'' then Some (Inl ValueError)
              else Some (Inr (expr, j + 1)))
      else
        (case parse_filter_term e (toks ! i) of
           Inl err \<Rightarrow> Some (Inl err)
         | Inr t \<Rightarrow> Some (Inr (apply_term e t, i + 1))))"
  by (subst parse.simps) (simp add: parse_step_def)

lemma parse_OrLoop:
  "parse e toks (OrLoop l i) =
     (if i < length toks \<and> upper (toks ! i) \<in> set [''OR'', ''||''] then
        and_then (parse e toks (PXor (i + 1)))
          (\<lambda>(r, j). parse e toks (OrLoop (\<lambda>itm. l itm \<or> r itm) j))
      else Some (Inr (l, i)))"
  by (subst parse.simps) (simp add: parse_step_def)

lemma parse_XorLoop:
  "parse e toks (XorLoop l i) =
     (if i < length toks \<and> upper (toks ! i) = ''XOR'' then
        and_then (parse e toks (PAnd (i + 1)))
          (\<lambda>(r, j). parse e toks (XorLoop (\<lambda>itm. l itm \<noteq> r itm) j))
      else Some (Inr (l, i)))"
  by (subst parse.simps) (simp add: parse_step_def)

lemma parse_AndLoop:
  "parse e toks (AndLoop l i) =
     (if i < length toks \<and> toks ! i \<notin> set ['')'', ''OR'', ''||'', ''XOR''] then
        if upper (toks ! i) \<in> set [''AND'', ''&&''] then parse e toks (AndLoop l (i + 1))
        else
          and_then (parse e toks (PNot i))
            (\<lambda>(r, j). parse e toks (AndLoop (\<lambda>itm. l itm \<and> r itm) j))
      else Some (Inr (l, i)))"
  by (subst parse.simps) (simp add: parse_step_def)

lemmas parse_eqs = parse_POr parse_PXor parse_PAnd parse_PNot parse_PPrimary
  parse_OrLoop parse_XorLoop parse_AndLoop

text \<open>A query of one token that is a term compiles to the matcher of that term.\<close>

lemma parse_single:
  assumes "parse_filter_term e a = Inr t" and "a \<noteq> ''(''" and "\<not> is_neg a"
  shows "parse_expression e [a] = Some (Inr (apply_term e t))"
  using assms
  by (simp add: parse_expression_def parse_or_def parse_eqs and_then_def)

lemma strip_Nil: "strip [] = []"
  by (simp add: strip_def)

section \<open>Stat terms\<close>


















section \<open>The empty token list\<close>

text \<open>
  Claim C5 says that \<open>_parse_expression\<close> returns the predicate that accepts every entry
  when the token list is empty. It raises \<open>ValueError\<close>: \<open>_parse_primary\<close> is reached with
  the index at the end of the tokens.
\<close>

theorem parse_expression_empty_counterexample:
  "parse_expression env0 [] = Some (Inl ValueError)"
  by (simp add: parse_expression_def parse_or_def parse_eqs and_then_def)

text \<open>
  Claim C5, amended. On the empty token list \<open>_parse_expression\<close> raises \<open>ValueError\<close>.
  The empty query is accepted before any parsing by the callers: \<open>filter_items\<close> returns
  the entries it is given, and \<open>compile_module_filter\<close> returns the predicate that is true
  for every entry.
\<close>

theorem empty_input:
  "parse_expression e [] = Some (Inl ValueError)
   \<and> filter_items e items [] = Some items
   \<and> compile_module_filter e [] = Some (Inr (\<lambda>itm. True))"
  by (simp add: parse_expression_def parse_or_def parse_eqs and_then_def filter_items_def
        compile_module_filter_def strip_Nil)

section \<open>Repeated negations\<close>

text \<open>
  Claim C2 says that an even number of negations cancels. \<open>_parse_not\<close> steps over every
  negation of a run and negates once, whatever their number: on an entry named \<open>a\<close> the
  queries \<open>NOT NOT a\<close>, \<open>!!a\<close> and \<open>! !a\<close> are all false, and the query \<open>a\<close> is true.
\<close>

theorem double_negation_filter:
  "run_on (compile env0 ''NOT NOT a'') (entry ''1'' ''a'') = Some (Inr False)
   \<and> run_on (compile env0 ''!!a'') (entry ''1'' ''a'') = Some (Inr False)
   \<and> run_on (compile env0 ''! !a'') (entry ''1'' ''a'') = Some (Inr False)
   \<and> run_on (compile env0 ''a'') (entry ''1'' ''a'') = Some (Inr True)"
  by code_simp

text \<open>
  Claim C4 says that \<open>compile_module_filter\<close> and \<open>_compile\<close> give predicates that agree.
  \<open>code_parse_not\<close> counts the negations of a run and negates when the count is odd, so on
  \<open>NOT NOT a\<close> and an entry named \<open>a\<close> the module predicate is true and the predicate of
  \<open>_compile\<close> is false.
\<close>

theorem module_compiler_differs:
  "run_on (compile_module_filter env0 ''NOT NOT a'') (entry ''1'' ''a'') = Some (Inr True)
   \<and> run_on (compile env0 ''NOT NOT a'') (entry ''1'' ''a'') = Some (Inr False)"
  by code_simp

section \<open>Number ranges\<close>

text \<open>A decimal literal without a sign reads as the number of its digits.\<close>

lemma py_float_integer:
  assumes "strip s = u" and "u \<noteq> []" and "hd u \<noteq> CHR ''-''" and "hd u \<noteq> CHR ''+''"
    and "split_char (CHR ''.'') u = [ip]" and "ip \<noteq> []" and "all_digits ip"
    and "digits_val ip = n"
  shows "py_float s = Some (of_nat n)"
  using assms by (simp add: py_float_def unsigned_float_def)

lemma py_float_decimal:
  assumes "strip s = u" and "u \<noteq> []" and "hd u \<noteq> CHR ''-''" and "hd u \<noteq> CHR ''+''"
    and "split_char (CHR ''.'') u = [ip, fp]" and "all_digits ip" and "all_digits fp"
    and "ip @ fp \<noteq> []" and "digits_val (ip @ fp) = n" and "length fp = k"
  shows "py_float s = Some (of_nat n / 10 ^ k)"
  using assms by (simp add: py_float_def unsigned_float_def)

lemma float_10: "py_float ''10'' = Some 10"
proof -
  have "py_float ''10'' = Some (of_nat 10)"
    by (rule py_float_integer [where u = "''10''" and ip = "''10''"]; code_simp)
  then show ?thesis by simp
qed

lemma float_12: "py_float ''12'' = Some 12"
proof -
  have "py_float ''12'' = Some (of_nat 12)"
    by (rule py_float_integer [where u = "''12''" and ip = "''12''"]; code_simp)
  then show ?thesis by simp
qed

lemma float_10_01: "py_float ''10.01'' = Some (1001 / 100)"
proof -
  have "py_float ''10.01'' = Some (of_nat 1001 / 10 ^ 2)"
    by (rule py_float_decimal [where u = "''10.01''" and ip = "''10''" and fp = "''01''"]; code_simp)
  then show ?thesis by simp
qed

lemma float_11_01: "py_float ''11.01'' = Some (1101 / 100)"
proof -
  have "py_float ''11.01'' = Some (of_nat 1101 / 10 ^ 2)"
    by (rule py_float_decimal [where u = "''11.01''" and ip = "''11''" and fp = "''01''"]; code_simp)
  then show ?thesis by simp
qed

lemma float_12_01: "py_float ''12.01'' = Some (1201 / 100)"
proof -
  have "py_float ''12.01'' = Some (of_nat 1201 / 10 ^ 2)"
    by (rule py_float_decimal [where u = "''12.01''" and ip = "''12''" and fp = "''01''"]; code_simp)
  then show ?thesis by simp
qed

text \<open>The two shapes of a term that starts with \<open>#\<close>: one number, or two with a dash.\<close>

lemma parse_number_range_single:
  assumes "strip (drop 1 t) = t0" and "endswith t0 ''f'' = f"
    and "(if f then butlast t0 else t0) = tok" and "\<not> contains tok ''-''"
    and "py_float tok = Some v"
  shows "parse_number_range t = Inr (TNumberRange v v f)"
  using assms by (simp add: parse_number_range_def Let_def)

lemma parse_number_range_pair:
  assumes "strip (drop 1 t) = t0" and "endswith t0 ''f'' = f"
    and "(if f then butlast t0 else t0) = tok" and "contains tok ''-''"
    and "split_char (CHR ''-'') tok = [a, b]"
    and "py_float a = Some lo" and "py_float b = Some hi"
  shows "parse_number_range t = Inr (TNumberRange lo hi f)"
  using assms by (simp add: parse_number_range_def Let_def)

lemma parse_filter_term_hash:
  assumes "\<not> startswith (strip (lower t)) ''@''" and "startswith t ''#''"
  shows "parse_filter_term e t = parse_number_range t"
  using assms by (simp add: parse_filter_term_def Let_def)

lemma term_12: "parse_filter_term e ''#12'' = Inr (TNumberRange 12 12 False)"
proof -
  have "parse_number_range ''#12'' = Inr (TNumberRange 12 12 False)"
    by (rule parse_number_range_single [where ?t0.0 = "''12''" and tok = "''12''"];
        (rule float_12 | code_simp))
  moreover have "parse_filter_term e ''#12'' = parse_number_range ''#12''"
    by (rule parse_filter_term_hash; code_simp)
  ultimately show ?thesis by simp
qed

lemma term_12f: "parse_filter_term e ''#12f'' = Inr (TNumberRange 12 12 True)"
proof -
  have "parse_number_range ''#12f'' = Inr (TNumberRange 12 12 True)"
    by (rule parse_number_range_single [where ?t0.0 = "''12f''" and tok = "''12''"];
        (rule float_12 | code_simp))
  moreover have "parse_filter_term e ''#12f'' = parse_number_range ''#12f''"
    by (rule parse_filter_term_hash; code_simp)
  ultimately show ?thesis by simp
qed

lemma term_10_12: "parse_filter_term e ''#10-12'' = Inr (TNumberRange 10 12 False)"
proof -
  have "parse_number_range ''#10-12'' = Inr (TNumberRange 10 12 False)"
    by (rule parse_number_range_pair
          [where ?t0.0 = "''10-12''" and tok = "''10-12''" and a = "''10''" and b = "''12''"];
        (rule float_10 | rule float_12 | code_simp))
  moreover have "parse_filter_term e ''#10-12'' = parse_number_range ''#10-12''"
    by (rule parse_filter_term_hash; code_simp)
  ultimately show ?thesis by simp
qed

lemma term_10_12f: "parse_filter_term e ''#10-12f'' = Inr (TNumberRange 10 12 True)"
proof -
  have "parse_number_range ''#10-12f'' = Inr (TNumberRange 10 12 True)"
    by (rule parse_number_range_pair
          [where ?t0.0 = "''10-12f''" and tok = "''10-12''" and a = "''10''" and b = "''12''"];
        (rule float_10 | rule float_12 | code_simp))
  moreover have "parse_filter_term e ''#10-12f'' = parse_number_range ''#10-12f''"
    by (rule parse_filter_term_hash; code_simp)
  ultimately show ?thesis by simp
qed

lemma tok_ranges:
  "tokenize ''#12'' = [''#12'']" "tokenize ''#12f'' = [''#12f'']"
  "tokenize ''#10-12'' = [''#10-12'']" "tokenize ''#10-12f'' = [''#10-12f'']"
  by code_simp+

lemma plain_ranges:
  "''#12'' \<noteq> ''(''" "\<not> is_neg ''#12''" "''#12f'' \<noteq> ''(''" "\<not> is_neg ''#12f''"
  "''#10-12'' \<noteq> ''(''" "\<not> is_neg ''#10-12''" "''#10-12f'' \<noteq> ''(''" "\<not> is_neg ''#10-12f''"
  by code_simp+

lemma apply_range:
  "apply_term e (TNumberRange lo hi forms) itm
     = (in_range lo hi (number itm) \<and> (forms \<or> \<not> has_dot (number itm)))"
  by (auto simp: apply_term_def match_number_range_filter_def in_range_def split: option.splits)

lemma range_12: "run_on (compile e ''#12'') itm
    = Some (Inr (in_range 12 12 (number itm) \<and> \<not> has_dot (number itm)))"
  by (simp add: compile_def tok_ranges parse_single [OF term_12] plain_ranges run_on_def apply_range)

lemma range_12f: "run_on (compile e ''#12f'') itm = Some (Inr (in_range 12 12 (number itm)))"
  by (simp add: compile_def tok_ranges parse_single [OF term_12f] plain_ranges run_on_def apply_range)

lemma range_10_12: "run_on (compile e ''#10-12'') itm
    = Some (Inr (in_range 10 12 (number itm) \<and> \<not> has_dot (number itm)))"
  by (simp add: compile_def tok_ranges parse_single [OF term_10_12] plain_ranges run_on_def apply_range)

lemma range_10_12f: "run_on (compile e ''#10-12f'') itm = Some (Inr (in_range 10 12 (number itm)))"
  by (simp add: compile_def tok_ranges parse_single [OF term_10_12f] plain_ranges run_on_def apply_range)

lemma dot_samples:
  "\<not> has_dot ''12''" "has_dot ''12.01''" "has_dot ''10.01''" "has_dot ''11.01''"
  by code_simp+

lemma range_samples:
  "in_range 12 12 ''12''" "\<not> in_range 12 12 ''12.01''" "in_range 10 12 ''10.01''"
  "in_range 10 12 ''11.01''" "\<not> in_range 10 12 ''12.01''"
  by (simp_all add: in_range_def float_12 float_10_01 float_11_01 float_12_01)

text \<open>
  Claim C3 says that \<open>#12f\<close> matches the identifier \<open>12.01\<close>. The range is taken over the
  number that the whole identifier reads as, and 12.01 is above 12.
\<close>

theorem range_f_counterexample:
  "run_on (compile env0 ''#12f'') (entry ''12.01'' ''x'') = Some (Inr False)"
  by (simp add: range_12f entry_def range_samples)

text \<open>
  Claim C3, amended. The number-range term is an inclusive range over the number that
  the whole identifier reads as, and without the suffix \<open>f\<close> an identifier with a dot is
  excluded. \<open>#12\<close> matches the identifiers without a dot that read as 12, so \<open>12\<close> and not
  \<open>12.01\<close>; \<open>#12f\<close> matches the identifiers that read as 12, so not \<open>12.01\<close> either;
  \<open>#10-12\<close> matches the identifiers without a dot that read as a number from 10 to 12;
  \<open>#10-12f\<close> matches every identifier that reads as a number from 10 to 12, so \<open>10.01\<close>
  and \<open>11.01\<close> but not \<open>12.01\<close>.
\<close>

theorem number_range_terms:
  "run_on (compile e ''#12'') itm
     = Some (Inr (in_range 12 12 (number itm) \<and> \<not> has_dot (number itm)))
   \<and> run_on (compile e ''#12f'') itm = Some (Inr (in_range 12 12 (number itm)))
   \<and> run_on (compile e ''#10-12'') itm
     = Some (Inr (in_range 10 12 (number itm) \<and> \<not> has_dot (number itm)))
   \<and> run_on (compile e ''#10-12f'') itm = Some (Inr (in_range 10 12 (number itm)))
   \<and> in_range 12 12 ''12'' \<and> \<not> has_dot ''12''
   \<and> \<not> in_range 12 12 ''12.01''
   \<and> in_range 10 12 ''10.01'' \<and> in_range 10 12 ''11.01'' \<and> \<not> in_range 10 12 ''12.01''"
  using range_12 range_12f range_10_12 range_10_12f range_samples dot_samples by simp

section \<open>Entries that the store does not hold\<close>

text \<open>
  Claim C10. Whatever the query, \<open>filter_item\<close> returns false when the key of the
  dictionary it is given is not a key of the store's items.
\<close>

theorem filter_item_unknown_key:
  assumes "items_dict e (case k of None \<Rightarrow> [] | Some key \<Rightarrow> key) = None"
  shows "filter_item e k q = Some False"
  using assms by (simp add: filter_item_def)

text \<open>The query \<open>a\<close> is true of an entry named \<open>a\<close>, and false of a key without an entry.\<close>

theorem filter_item_unknown_key_witness:
  "items_dict env0 (case Some ''25'' of None \<Rightarrow> [] | Some key \<Rightarrow> key) = None
   \<and> filter_item env0 (Some ''25'') ''a'' = Some False
   \<and> run_on (compile env0 ''a'') (entry ''25'' ''a'') = Some (Inr True)"
proof -
  have h: "items_dict env0 (case Some ''25'' of None \<Rightarrow> [] | Some key \<Rightarrow> key) = None"
    by (simp add: env0_def)
  have m: "run_on (compile env0 ''a'') (entry ''25'' ''a'') = Some (Inr True)"
    by code_simp
  show ?thesis
    using h m filter_item_unknown_key [OF h, of "''a''"] by simp
qed

section \<open>The cache of a module predicate\<close>

text \<open>
  Claim C7. After a call of the cached predicate on an entry, a call on an entry with the
  same identifier returns the same boolean and leaves the cache and the state of the
  underlying predicate as they were: it does not call the underlying predicate. When the
  identifier was not in the cache before the first call, the first call returns what the
  underlying predicate returns and has the effect of one call of it, so the two calls
  together call it exactly once.
\<close>

theorem cached_second_call:
  assumes "number i2 = number i1"
  shows "(case cached func i1 (c, w) of (r1, c1, w1) \<Rightarrow>
           (case cached func i2 (c1, w1) of (r2, c2, w2) \<Rightarrow>
              r2 = r1 \<and> c2 = c1 \<and> w2 = w1
              \<and> (c (number i1) = None \<longrightarrow> (r1, w1) = func i1 w)))"
  using assms
  by (auto simp: cached_def Let_def split: option.splits prod.splits)

text \<open>
  With a predicate that counts its calls and an empty cache, the count is one after the
  first call and still one after the second.
\<close>

theorem cached_second_call_witness:
  "number (entry ''7'' ''b'') = number (entry ''7'' ''a'')
   \<and> cached (counting (\<lambda>itm. name itm = ''a'')) (entry ''7'' ''a'') (Map.empty, 0)
       = (True, [''7'' \<mapsto> True], 1)
   \<and> cached (counting (\<lambda>itm. name itm = ''a'')) (entry ''7'' ''b'') ([''7'' \<mapsto> True], 1)
       = (True, [''7'' \<mapsto> True], 1)"
proof -
  have n: "number (entry ''7'' ''b'') = number (entry ''7'' ''a'')"
    by (simp add: entry_def)
  show ?thesis
    using n cached_second_call [OF n, where func = "counting (\<lambda>itm. name itm = ''a'')"
      and c = Map.empty and w = 0]
    by (simp add: cached_def counting_def entry_def)
qed

section \<open>Modules without exclusions\<close>

lemma region_tokens_all: "list_all snd rs \<Longrightarrow> region_tokens rs = []"
  by (induction rs) (auto simp: region_tokens_def split: option.splits)

lemma form_tokens_all: "list_all snd fs \<Longrightarrow> form_tokens fs = []"
  by (induction fs) (auto simp: form_tokens_def)

lemma species_tokens_all:
  assumes "list_all snd ss"
  shows "species_tokens ss = []"
proof -
  have "concat (map (\<lambda>(s, inc). if \<not> inc then [lower s] else []) ss) = []"
    using assms by (induction ss) auto
  then show ?thesis
    by (simp add: species_tokens_def)
qed

lemma special_tokens_all: "list_all snd hs \<Longrightarrow> special_tokens table hs = []"
  by (induction hs) (auto simp: special_tokens_def)

lemma module_tokens_none: "no_exclusions doc \<Longrightarrow> module_tokens doc = []"
  by (simp add: no_exclusions_def module_tokens_def region_tokens_all form_tokens_all
        species_tokens_all special_tokens_all)

text \<open>
  Claim C8. For a module document with no explicit constraint, no disabled region and
  no excluded form, species or special case, the derived query string is empty and the
  compiled module predicate, also under its cache, is true for every entry.
\<close>

theorem no_exclusions_accept_all:
  assumes "no_exclusions doc"
  shows "build_module_filter_string doc = []
         \<and> compile_module_filter e (build_module_filter_string doc) = Some (Inr (\<lambda>itm. True))
         \<and> run_on (compile_module_filter e (build_module_filter_string doc)) itm = Some (Inr True)
         \<and> fst (cached (pure_pred (\<lambda>itm. True)) itm (Map.empty, w)) = True"
  using module_tokens_none [OF assms]
  by (simp add: build_module_filter_string_def compile_module_filter_def strip_Nil run_on_def
        cached_def pure_pred_def)

lemma no_exclusions_plain_doc: "no_exclusions plain_doc"
  by code_simp

theorem no_exclusions_accept_all_witness:
  "no_exclusions plain_doc
   \<and> build_module_filter_string plain_doc = []
   \<and> run_on (compile_module_filter env0 (build_module_filter_string plain_doc)) (entry ''25'' ''Pikachu'')
       = Some (Inr True)"
  using no_exclusions_plain_doc
    no_exclusions_accept_all [OF no_exclusions_plain_doc, where e = env0
      and itm = "entry ''25'' ''Pikachu''" and w = "0::nat"]
  by blast

section \<open>White space between tokens\<close>

text \<open>
  A white-space character cuts a query in two for every stage of the tokenizer, so the
  tokens of the whole are the tokens of the left part followed by those of the right part.
\<close>

lemma space_not_word: "is_space c \<Longrightarrow> \<not> is_word_char c"
  by (auto simp: is_space_def is_word_char_def upper_letters_def lower_letters_def
        is_digit_def digit_chars_def)

lemma space_not_mark:
  "is_space c \<Longrightarrow> c \<noteq> CHR ''('' \<and> c \<noteq> CHR '')'' \<and> c \<noteq> CHR ''!'' \<and> c \<noteq> CHR ''|''"
  by (auto simp: is_space_def)

lemma is_space_blank: "is_space (CHR '' '')"
  by (simp add: is_space_def)

lemma pad_parens_append: "pad_parens (x @ y) = pad_parens x @ pad_parens y"
  by (simp add: pad_parens_def)

lemma pad_parens_sep:
  assumes "is_space c"
  shows "pad_parens (x @ c # y) = pad_parens x @ c # pad_parens y"
  using space_not_mark [OF assms] by (simp add: pad_parens_def)

lemma startswith_sep:
  assumes "c \<notin> set old"
  shows "startswith (x @ c # y) old \<longleftrightarrow> startswith x old"
proof (cases "length old \<le> length x")
  case True
  then show ?thesis by (simp add: startswith_def)
next
  case False
  then have less: "length x < length old" by simp
  have "take (length old) x \<noteq> old"
  proof
    assume "take (length old) x = old"
    then have "length (take (length old) x) = length old" by simp
    then show False using less by simp
  qed
  moreover have "take (length old) (x @ c # y) \<noteq> old"
  proof
    assume eq: "take (length old) (x @ c # y) = old"
    have t: "take (length old) (x @ c # y) = x @ c # take (length old - length x - 1) y"
      using less by (cases "length old - length x") auto
    from eq [symmetric] have o: "old = x @ c # take (length old - length x - 1) y"
      unfolding t .
    have "c \<in> set old"
      by (subst o) simp
    then show False using assms by simp
  qed
  ultimately show ?thesis by (simp add: startswith_def)
qed

lemma startswith_length:
  assumes "startswith x old"
  shows "length old \<le> length x"
proof -
  have "length (take (length old) x) = length old"
    using assms by (simp add: startswith_def)
  then show ?thesis by simp
qed

lemma replace_sep:
  assumes "old \<noteq> []" and "c \<notin> set old"
  shows "replace old new (x @ c # y) = replace old new x @ c # replace old new y"
  using assms
proof (induction old new x rule: replace.induct)
  case (1 old new s)
  show ?case
  proof (cases "s = []")
    case True
    have "\<not> startswith (c # y) old"
      using startswith_sep [OF "1.prems"(2), of "[]" y] "1.prems"(1)
      by (simp add: startswith_def)
    then have "replace old new (c # y) = c # replace old new y"
      using "1.prems"(1) by (subst replace.simps) simp
    moreover have "replace old new [] = []"
      by (subst replace.simps) simp
    ultimately show ?thesis using True by simp
  next
    case False
    show ?thesis
    proof (cases "startswith s old")
      case True
      have len: "length old \<le> length s" using True by (rule startswith_length)
      have IH: "replace old new (drop (length old) s @ c # y)
                  = replace old new (drop (length old) s) @ c # replace old new y"
        using "1.IH"(1) False True "1.prems" by simp
      have L: "replace old new (s @ c # y) = new @ replace old new (drop (length old) s @ c # y)"
        using False True "1.prems" len startswith_sep [OF "1.prems"(2), of s y]
        by (subst replace.simps) simp
      have R: "replace old new s = new @ replace old new (drop (length old) s)"
        using False True "1.prems" by (subst replace.simps) simp
      show ?thesis by (simp add: L R IH)
    next
      case nsw: False
      have IH: "replace old new (tl s @ c # y) = replace old new (tl s) @ c # replace old new y"
        using "1.IH"(2) False nsw "1.prems" by simp
      have L: "replace old new (s @ c # y) = hd s # replace old new (tl s @ c # y)"
        using False nsw "1.prems" startswith_sep [OF "1.prems"(2), of s y]
        by (subst replace.simps) simp
      have R: "replace old new s = hd s # replace old new (tl s)"
        using False nsw "1.prems" by (subst replace.simps) simp
      show ?thesis by (simp add: L R IH)
    qed
  qed
qed

lemma pad_keywords_Nil: "pad_keywords [] = []"
  by (subst pad_keywords.simps) simp

lemma pad_keywords_sep:
  assumes "is_space c"
  shows "pad_keywords (x @ c # y) = pad_keywords x @ c # pad_keywords y"
proof (induction x rule: pad_keywords.induct)
  case (1 s)
  have nw: "\<not> is_word_char c" using assms by (rule space_not_word)
  show ?case
  proof (cases "s = []")
    case True
    have "pad_keywords (c # y) = c # pad_keywords y"
      using nw by (subst pad_keywords.simps) simp
    then show ?thesis using True by (simp add: pad_keywords_Nil)
  next
    case False
    show ?thesis
    proof (cases "is_word_char (hd s)")
      case True
      have t: "takeWhile is_word_char (s @ c # y) = takeWhile is_word_char s"
        using nw by (simp add: takeWhile_tail)
      have r: "dropWhile is_word_char (s @ c # y) = dropWhile is_word_char s @ c # y"
        using nw by (simp add: dropWhile_append3)
      have IH: "pad_keywords (dropWhile is_word_char s @ c # y)
                  = pad_keywords (dropWhile is_word_char s) @ c # pad_keywords y"
        using "1.IH"(1) False True by simp
      have L: "pad_keywords (s @ c # y)
                 = (if is_keyword (takeWhile is_word_char s)
                    then CHR '' '' # takeWhile is_word_char s @ [CHR '' '']
                    else takeWhile is_word_char s)
                   @ pad_keywords (dropWhile is_word_char s @ c # y)"
        using False True by (subst pad_keywords.simps) (simp add: t r Let_def)
      have R: "pad_keywords s
                 = (if is_keyword (takeWhile is_word_char s)
                    then CHR '' '' # takeWhile is_word_char s @ [CHR '' '']
                    else takeWhile is_word_char s)
                   @ pad_keywords (dropWhile is_word_char s)"
        using False True by (subst pad_keywords.simps) (simp add: Let_def)
      show ?thesis by (simp add: L R IH)
    next
      case nwc: False
      have IH: "pad_keywords (tl s @ c # y) = pad_keywords (tl s) @ c # pad_keywords y"
        using "1.IH"(2) False nwc by simp
      have L: "pad_keywords (s @ c # y) = hd s # pad_keywords (tl s @ c # y)"
        using False nwc by (subst pad_keywords.simps) simp
      have R: "pad_keywords s = hd s # pad_keywords (tl s)"
        using False nwc by (subst pad_keywords.simps) simp
      show ?thesis by (simp add: L R IH)
    qed
  qed
qed

lemma split_ws_dropWhile: "split_ws (dropWhile is_space s) = split_ws s"
  by (simp add: split_ws.simps [of s] split_ws.simps [of "dropWhile is_space s"])

lemma split_ws_sep:
  assumes "is_space c"
  shows "split_ws (x @ c # y) = split_ws x @ split_ws y"
proof (induction x rule: split_ws.induct)
  case (1 s)
  show ?case
  proof (cases "dropWhile is_space s = []")
    case True
    then have "dropWhile is_space (s @ c # y) = dropWhile is_space y"
      using assms by (simp add: dropWhile_eq_Nil_conv dropWhile_append2)
    then have "split_ws (s @ c # y) = split_ws y"
      using split_ws_dropWhile [of "s @ c # y"] split_ws_dropWhile [of y] by simp
    moreover have "split_ws s = []"
      using True by (simp add: split_ws.simps [of s])
    ultimately show ?thesis by simp
  next
    case False
    then obtain a where a: "a \<in> set s" "\<not> is_space a"
      by (auto simp: dropWhile_eq_Nil_conv)
    have d: "dropWhile is_space (s @ c # y) = dropWhile is_space s @ c # y"
      using a by (simp add: dropWhile_append1)
    have t: "takeWhile (\<lambda>c. \<not> is_space c) (dropWhile is_space s @ c # y)
               = takeWhile (\<lambda>c. \<not> is_space c) (dropWhile is_space s)"
      using assms by (simp add: takeWhile_tail)
    have r: "dropWhile (\<lambda>c. \<not> is_space c) (dropWhile is_space s @ c # y)
               = dropWhile (\<lambda>c. \<not> is_space c) (dropWhile is_space s) @ c # y"
      using assms by (simp add: dropWhile_append3)
    have IH: "split_ws (dropWhile (\<lambda>c. \<not> is_space c) (dropWhile is_space s) @ c # y)
                = split_ws (dropWhile (\<lambda>c. \<not> is_space c) (dropWhile is_space s)) @ split_ws y"
      using "1.IH" [OF refl False] .
    have L: "split_ws (s @ c # y)
               = takeWhile (\<lambda>c. \<not> is_space c) (dropWhile is_space s)
                 # split_ws (dropWhile (\<lambda>c. \<not> is_space c) (dropWhile is_space s) @ c # y)"
      by (subst split_ws.simps) (simp add: d t r Let_def)
    have R: "split_ws s
               = takeWhile (\<lambda>c. \<not> is_space c) (dropWhile is_space s)
                 # split_ws (dropWhile (\<lambda>c. \<not> is_space c) (dropWhile is_space s))"
      using False by (subst split_ws.simps) (simp add: Let_def)
    show ?thesis by (simp add: L R IH)
  qed
qed

lemma tokenize_sep:
  assumes "is_space c"
  shows "tokenize (x @ c # y) = tokenize x @ tokenize y"
proof -
  have m: "c \<notin> set ''!''" "c \<notin> set ''||''"
    using space_not_mark [OF assms] by simp_all
  show ?thesis
    by (simp add: tokenize_def Let_def pad_parens_sep [OF assms] replace_sep [OF _ m(1)]
          pad_keywords_sep [OF assms] replace_sep [OF _ m(2)] split_ws_sep [OF assms])
qed

lemma tokenize_blank: "tokenize (x @ CHR '' '' # y) = tokenize x @ tokenize y"
  by (rule tokenize_sep [OF is_space_blank])

lemma tokenize_Nil: "tokenize [] = []"
  by code_simp

lemma tokenize_leading:
  assumes "\<forall>c\<in>set ws. is_space c"
  shows "tokenize (ws @ y) = tokenize y"
  using assms
proof (induction ws)
  case Nil
  show ?case by simp
next
  case (Cons c ws)
  have "tokenize ((c # ws) @ y) = tokenize ([] @ c # (ws @ y))" by simp
  also have "\<dots> = tokenize [] @ tokenize (ws @ y)"
    using Cons.prems by (intro tokenize_sep) simp
  also have "\<dots> = tokenize y"
    using Cons by (simp add: tokenize_Nil)
  finally show ?case .
qed

lemma tokenize_trailing:
  assumes "\<forall>c\<in>set ws. is_space c"
  shows "tokenize (x @ ws) = tokenize x"
proof (cases ws)
  case Nil
  then show ?thesis by simp
next
  case (Cons c ws')
  have "tokenize ws' = []"
    using tokenize_leading [of ws' "[]"] assms Cons by (simp add: tokenize_Nil)
  moreover have "tokenize (x @ c # ws') = tokenize x @ tokenize ws'"
    using assms Cons by (intro tokenize_sep) simp
  ultimately show ?thesis using Cons by simp
qed

lemma strip_decomp:
  obtains l r where "\<forall>c\<in>set l. is_space c" and "\<forall>c\<in>set r. is_space c" and "s = l @ strip s @ r"
proof
  let ?d = "dropWhile is_space s"
  show "\<forall>c\<in>set (takeWhile is_space s). is_space c"
    by (auto dest: set_takeWhileD)
  show "\<forall>c\<in>set (rev (takeWhile is_space (rev ?d))). is_space c"
    by (auto dest: set_takeWhileD)
  have "rev (dropWhile is_space (rev ?d)) @ rev (takeWhile is_space (rev ?d))
          = rev (takeWhile is_space (rev ?d) @ dropWhile is_space (rev ?d))"
    by (simp only: rev_append)
  also have "\<dots> = ?d"
    by simp
  finally have d: "rev (dropWhile is_space (rev ?d)) @ rev (takeWhile is_space (rev ?d)) = ?d" .
  show "s = takeWhile is_space s @ strip s @ rev (takeWhile is_space (rev ?d))"
    unfolding strip_def d by simp
qed

lemma tokenize_strip: "tokenize (strip s) = tokenize s"
proof -
  obtain l r where l: "\<forall>c\<in>set l. is_space c" and r: "\<forall>c\<in>set r. is_space c"
    and s: "s = l @ strip s @ r"
    by (rule strip_decomp)
  have "tokenize (l @ strip s @ r) = tokenize (strip s @ r)"
    using l by (rule tokenize_leading)
  also have "\<dots> = tokenize (strip s)"
    using r by (rule tokenize_trailing)
  finally show ?thesis using s by simp
qed

text \<open>A parenthesis is a token of its own, whatever stands next to it.\<close>

lemma stages_sep:
  assumes "is_space c"
  shows "split_ws (replace ''||'' '' || '' (pad_keywords (replace ''!'' '' ! '' (x @ c # y))))
     = split_ws (replace ''||'' '' || '' (pad_keywords (replace ''!'' '' ! '' x)))
       @ split_ws (replace ''||'' '' || '' (pad_keywords (replace ''!'' '' ! '' y)))"
proof -
  have m: "c \<notin> set ''!''" "c \<notin> set ''||''"
    using space_not_mark [OF assms] by simp_all
  show ?thesis
    by (simp add: replace_sep [OF _ m(1)] pad_keywords_sep [OF assms] replace_sep [OF _ m(2)]
          split_ws_sep [OF assms])
qed

lemma stages_paren:
  "split_ws (replace ''||'' '' || '' (pad_keywords (replace ''!'' '' ! '' []))) = []"
  "split_ws (replace ''||'' '' || '' (pad_keywords (replace ''!'' '' ! '' ''(''))) = [''('']"
  "split_ws (replace ''||'' '' || '' (pad_keywords (replace ''!'' '' ! '' '')''))) = ['')'']"
  by code_simp+

lemma tokenize_open: "tokenize (CHR ''('' # y) = ''('' # tokenize y"
proof -
  have "pad_parens (CHR ''('' # y) = [] @ CHR '' '' # (''('' @ CHR '' '' # pad_parens y)"
    by (simp add: pad_parens_def)
  then show ?thesis
    unfolding tokenize_def Let_def
    by (simp only: stages_sep [OF is_space_blank] stages_paren) simp
qed

lemma tokenize_close: "tokenize (x @ '')'') = tokenize x @ ['')'']"
proof -
  have "pad_parens (x @ '')'') = pad_parens x @ CHR '' '' # ('')'' @ CHR '' '' # [])"
    by (simp add: pad_parens_def)
  then show ?thesis
    unfolding tokenize_def Let_def
    by (simp only: stages_sep [OF is_space_blank] stages_paren) simp
qed
section \<open>Precedence and implicit conjunction\<close>

lemma upper_keywords:
  "upper ''OR'' = ''OR''" "upper ''AND'' = ''AND''" "upper ''||'' = ''||''"
  "upper ''XOR'' = ''XOR''" "upper ''NOT'' = ''NOT''" "upper '')'' = '')''"
  "upper ''('' = ''(''"
  by code_simp+

lemma tok_keywords:
  "tokenize ''OR'' = [''OR'']" "tokenize ''AND'' = [''AND'']"
  "tokenize ''XOR'' = [''XOR'']" "tokenize ''NOT'' = [''NOT'']"
  by code_simp+

lemma is_operandD:
  assumes "is_operand a"
  shows "tokenize a = [a]" and "a \<noteq> ''(''" and "a \<noteq> '')''" and "\<not> is_neg a"
    and "a \<noteq> ''OR''" and "a \<noteq> ''||''" and "a \<noteq> ''XOR''"
    and "upper a \<noteq> ''AND''" and "upper a \<noteq> ''&&''"
  using assms upper_keywords by (auto simp: is_operand_def is_neg_def)

text \<open>The tokens of a query, read from the left: a word, a blank, a parenthesis.\<close>

lemma tokenize_paren_mid:
  "tokenize (x @ CHR ''('' # y) = tokenize x @ ''('' # tokenize y"
  "tokenize (x @ CHR '')'' # y) = tokenize x @ '')'' # tokenize y"
proof -
  have "pad_parens (x @ CHR ''('' # y)
          = pad_parens x @ CHR '' '' # (''('' @ CHR '' '' # pad_parens y)"
    by (simp add: pad_parens_def)
  then show "tokenize (x @ CHR ''('' # y) = tokenize x @ ''('' # tokenize y"
    unfolding tokenize_def Let_def
    by (simp only: stages_sep [OF is_space_blank] stages_paren) simp
  have "pad_parens (x @ CHR '')'' # y)
          = pad_parens x @ CHR '' '' # ('')'' @ CHR '' '' # pad_parens y)"
    by (simp add: pad_parens_def)
  then show "tokenize (x @ CHR '')'' # y) = tokenize x @ '')'' # tokenize y"
    unfolding tokenize_def Let_def
    by (simp only: stages_sep [OF is_space_blank] stages_paren) simp
qed

lemma tok_lead_blank: "tokenize (CHR '' '' # y) = tokenize y"
  using tokenize_blank [of "[]" y] by (simp add: tokenize_Nil)

lemma tok_word:
  "tokenize (CHR ''O'' # CHR ''R'' # CHR '' '' # y) = ''OR'' # tokenize y"
  "tokenize (CHR ''A'' # CHR ''N'' # CHR ''D'' # CHR '' '' # y) = ''AND'' # tokenize y"
  "tokenize (CHR ''X'' # CHR ''O'' # CHR ''R'' # CHR '' '' # y) = ''XOR'' # tokenize y"
  "tokenize (CHR ''N'' # CHR ''O'' # CHR ''T'' # CHR '' '' # y) = ''NOT'' # tokenize y"
  using tokenize_blank [of "''OR''" y] tokenize_blank [of "''AND''" y]
    tokenize_blank [of "''XOR''" y] tokenize_blank [of "''NOT''" y]
  by (simp_all add: tok_keywords)

lemmas tok_rules = tokenize_blank tok_lead_blank tok_word tokenize_paren_mid tokenize_open
  tokenize_close tokenize_Nil

text \<open>
  The queries of two and of three terms, one lemma for each: without parentheses, and
  with the parentheses that the order of the operators stands for or that go against it.
\<close>

lemma compile_or_and:
  assumes "is_operand a" and "is_operand b" and "is_operand c"
  shows "compile e (a @ '' OR '' @ b @ '' AND '' @ c)
           = Some (or_of (term_pred e a) (and_of (term_pred e b) (term_pred e c)))"
  using is_operandD [OF assms(1)] is_operandD [OF assms(2)] is_operandD [OF assms(3)]
  by (simp add: compile_def tok_rules parse_expression_def parse_or_def parse_eqs and_then_def
        upper_keywords is_neg_def neg_loop.simps term_pred_def not_of_def and_of_def xor_of_def
        or_of_def split: sum.splits)

lemma compile_or_and_paren:
  assumes "is_operand a" and "is_operand b" and "is_operand c"
  shows "compile e (a @ '' OR ('' @ b @ '' AND '' @ c @ '')'')
           = Some (or_of (term_pred e a) (and_of (term_pred e b) (term_pred e c)))"
  using is_operandD [OF assms(1)] is_operandD [OF assms(2)] is_operandD [OF assms(3)]
  by (simp add: compile_def tok_rules parse_expression_def parse_or_def parse_eqs and_then_def
        upper_keywords is_neg_def neg_loop.simps term_pred_def not_of_def and_of_def xor_of_def
        or_of_def split: sum.splits)

lemma compile_and_or:
  assumes "is_operand a" and "is_operand b" and "is_operand c"
  shows "compile e (a @ '' AND '' @ b @ '' OR '' @ c)
           = Some (or_of (and_of (term_pred e a) (term_pred e b)) (term_pred e c))"
  using is_operandD [OF assms(1)] is_operandD [OF assms(2)] is_operandD [OF assms(3)]
  by (simp add: compile_def tok_rules parse_expression_def parse_or_def parse_eqs and_then_def
        upper_keywords is_neg_def neg_loop.simps term_pred_def not_of_def and_of_def xor_of_def
        or_of_def split: sum.splits)

lemma compile_and_or_paren:
  assumes "is_operand a" and "is_operand b" and "is_operand c"
  shows "compile e (''('' @ a @ '' AND '' @ b @ '') OR '' @ c)
           = Some (or_of (and_of (term_pred e a) (term_pred e b)) (term_pred e c))"
  using is_operandD [OF assms(1)] is_operandD [OF assms(2)] is_operandD [OF assms(3)]
  by (simp add: compile_def tok_rules parse_expression_def parse_or_def parse_eqs and_then_def
        upper_keywords is_neg_def neg_loop.simps term_pred_def not_of_def and_of_def xor_of_def
        or_of_def split: sum.splits)

lemma compile_xor_and:
  assumes "is_operand a" and "is_operand b" and "is_operand c"
  shows "compile e (a @ '' XOR '' @ b @ '' AND '' @ c)
           = Some (xor_of (term_pred e a) (and_of (term_pred e b) (term_pred e c)))"
  using is_operandD [OF assms(1)] is_operandD [OF assms(2)] is_operandD [OF assms(3)]
  by (simp add: compile_def tok_rules parse_expression_def parse_or_def parse_eqs and_then_def
        upper_keywords is_neg_def neg_loop.simps term_pred_def not_of_def and_of_def xor_of_def
        or_of_def split: sum.splits)

lemma compile_xor_and_paren:
  assumes "is_operand a" and "is_operand b" and "is_operand c"
  shows "compile e (a @ '' XOR ('' @ b @ '' AND '' @ c @ '')'')
           = Some (xor_of (term_pred e a) (and_of (term_pred e b) (term_pred e c)))"
  using is_operandD [OF assms(1)] is_operandD [OF assms(2)] is_operandD [OF assms(3)]
  by (simp add: compile_def tok_rules parse_expression_def parse_or_def parse_eqs and_then_def
        upper_keywords is_neg_def neg_loop.simps term_pred_def not_of_def and_of_def xor_of_def
        or_of_def split: sum.splits)

lemma compile_and_xor:
  assumes "is_operand a" and "is_operand b" and "is_operand c"
  shows "compile e (a @ '' AND '' @ b @ '' XOR '' @ c)
           = Some (xor_of (and_of (term_pred e a) (term_pred e b)) (term_pred e c))"
  using is_operandD [OF assms(1)] is_operandD [OF assms(2)] is_operandD [OF assms(3)]
  by (simp add: compile_def tok_rules parse_expression_def parse_or_def parse_eqs and_then_def
        upper_keywords is_neg_def neg_loop.simps term_pred_def not_of_def and_of_def xor_of_def
        or_of_def split: sum.splits)

lemma compile_and_xor_paren:
  assumes "is_operand a" and "is_operand b" and "is_operand c"
  shows "compile e (''('' @ a @ '' AND '' @ b @ '') XOR '' @ c)
           = Some (xor_of (and_of (term_pred e a) (term_pred e b)) (term_pred e c))"
  using is_operandD [OF assms(1)] is_operandD [OF assms(2)] is_operandD [OF assms(3)]
  by (simp add: compile_def tok_rules parse_expression_def parse_or_def parse_eqs and_then_def
        upper_keywords is_neg_def neg_loop.simps term_pred_def not_of_def and_of_def xor_of_def
        or_of_def split: sum.splits)

lemma compile_or_xor:
  assumes "is_operand a" and "is_operand b" and "is_operand c"
  shows "compile e (a @ '' OR '' @ b @ '' XOR '' @ c)
           = Some (or_of (term_pred e a) (xor_of (term_pred e b) (term_pred e c)))"
  using is_operandD [OF assms(1)] is_operandD [OF assms(2)] is_operandD [OF assms(3)]
  by (simp add: compile_def tok_rules parse_expression_def parse_or_def parse_eqs and_then_def
        upper_keywords is_neg_def neg_loop.simps term_pred_def not_of_def and_of_def xor_of_def
        or_of_def split: sum.splits)

lemma compile_or_xor_paren:
  assumes "is_operand a" and "is_operand b" and "is_operand c"
  shows "compile e (a @ '' OR ('' @ b @ '' XOR '' @ c @ '')'')
           = Some (or_of (term_pred e a) (xor_of (term_pred e b) (term_pred e c)))"
  using is_operandD [OF assms(1)] is_operandD [OF assms(2)] is_operandD [OF assms(3)]
  by (simp add: compile_def tok_rules parse_expression_def parse_or_def parse_eqs and_then_def
        upper_keywords is_neg_def neg_loop.simps term_pred_def not_of_def and_of_def xor_of_def
        or_of_def split: sum.splits)

lemma compile_xor_or:
  assumes "is_operand a" and "is_operand b" and "is_operand c"
  shows "compile e (a @ '' XOR '' @ b @ '' OR '' @ c)
           = Some (or_of (xor_of (term_pred e a) (term_pred e b)) (term_pred e c))"
  using is_operandD [OF assms(1)] is_operandD [OF assms(2)] is_operandD [OF assms(3)]
  by (simp add: compile_def tok_rules parse_expression_def parse_or_def parse_eqs and_then_def
        upper_keywords is_neg_def neg_loop.simps term_pred_def not_of_def and_of_def xor_of_def
        or_of_def split: sum.splits)

lemma compile_xor_or_paren:
  assumes "is_operand a" and "is_operand b" and "is_operand c"
  shows "compile e (''('' @ a @ '' XOR '' @ b @ '') OR '' @ c)
           = Some (or_of (xor_of (term_pred e a) (term_pred e b)) (term_pred e c))"
  using is_operandD [OF assms(1)] is_operandD [OF assms(2)] is_operandD [OF assms(3)]
  by (simp add: compile_def tok_rules parse_expression_def parse_or_def parse_eqs and_then_def
        upper_keywords is_neg_def neg_loop.simps term_pred_def not_of_def and_of_def xor_of_def
        or_of_def split: sum.splits)

lemma compile_not_and:
  assumes "is_operand a" and "is_operand b"
  shows "compile e (''NOT '' @ a @ '' AND '' @ b)
           = Some (and_of (not_of (term_pred e a)) (term_pred e b))"
  using is_operandD [OF assms(1)] is_operandD [OF assms(2)]
  by (simp add: compile_def tok_rules parse_expression_def parse_or_def parse_eqs and_then_def
        upper_keywords is_neg_def neg_loop.simps term_pred_def not_of_def and_of_def xor_of_def
        or_of_def split: sum.splits)

lemma compile_not_and_paren:
  assumes "is_operand a" and "is_operand b"
  shows "compile e (''(NOT '' @ a @ '') AND '' @ b)
           = Some (and_of (not_of (term_pred e a)) (term_pred e b))"
  using is_operandD [OF assms(1)] is_operandD [OF assms(2)]
  by (simp add: compile_def tok_rules parse_expression_def parse_or_def parse_eqs and_then_def
        upper_keywords is_neg_def neg_loop.simps term_pred_def not_of_def and_of_def xor_of_def
        or_of_def split: sum.splits)

lemma compile_not_xor:
  assumes "is_operand a" and "is_operand b"
  shows "compile e (''NOT '' @ a @ '' XOR '' @ b)
           = Some (xor_of (not_of (term_pred e a)) (term_pred e b))"
  using is_operandD [OF assms(1)] is_operandD [OF assms(2)]
  by (simp add: compile_def tok_rules parse_expression_def parse_or_def parse_eqs and_then_def
        upper_keywords is_neg_def neg_loop.simps term_pred_def not_of_def and_of_def xor_of_def
        or_of_def split: sum.splits)

lemma compile_not_xor_paren:
  assumes "is_operand a" and "is_operand b"
  shows "compile e (''(NOT '' @ a @ '') XOR '' @ b)
           = Some (xor_of (not_of (term_pred e a)) (term_pred e b))"
  using is_operandD [OF assms(1)] is_operandD [OF assms(2)]
  by (simp add: compile_def tok_rules parse_expression_def parse_or_def parse_eqs and_then_def
        upper_keywords is_neg_def neg_loop.simps term_pred_def not_of_def and_of_def xor_of_def
        or_of_def split: sum.splits)

lemma compile_not_or:
  assumes "is_operand a" and "is_operand b"
  shows "compile e (''NOT '' @ a @ '' OR '' @ b)
           = Some (or_of (not_of (term_pred e a)) (term_pred e b))"
  using is_operandD [OF assms(1)] is_operandD [OF assms(2)]
  by (simp add: compile_def tok_rules parse_expression_def parse_or_def parse_eqs and_then_def
        upper_keywords is_neg_def neg_loop.simps term_pred_def not_of_def and_of_def xor_of_def
        or_of_def split: sum.splits)

lemma compile_not_or_paren:
  assumes "is_operand a" and "is_operand b"
  shows "compile e (''(NOT '' @ a @ '') OR '' @ b)
           = Some (or_of (not_of (term_pred e a)) (term_pred e b))"
  using is_operandD [OF assms(1)] is_operandD [OF assms(2)]
  by (simp add: compile_def tok_rules parse_expression_def parse_or_def parse_eqs and_then_def
        upper_keywords is_neg_def neg_loop.simps term_pred_def not_of_def and_of_def xor_of_def
        or_of_def split: sum.splits)

lemma compile_adjacent:
  assumes "is_operand a" and "is_operand b"
  shows "compile e (a @ '' '' @ b)
           = Some (and_of (term_pred e a) (term_pred e b))"
  using is_operandD [OF assms(1)] is_operandD [OF assms(2)]
  by (simp add: compile_def tok_rules parse_expression_def parse_or_def parse_eqs and_then_def
        upper_keywords is_neg_def neg_loop.simps term_pred_def not_of_def and_of_def xor_of_def
        or_of_def split: sum.splits)

lemma compile_adjacent_paren:
  assumes "is_operand a" and "is_operand b"
  shows "compile e (a @ '' AND '' @ b)
           = Some (and_of (term_pred e a) (term_pred e b))"
  using is_operandD [OF assms(1)] is_operandD [OF assms(2)]
  by (simp add: compile_def tok_rules parse_expression_def parse_or_def parse_eqs and_then_def
        upper_keywords is_neg_def neg_loop.simps term_pred_def not_of_def and_of_def xor_of_def
        or_of_def split: sum.splits)

lemma compile_not_adjacent:
  assumes "is_operand a" and "is_operand b"
  shows "compile e (''NOT '' @ a @ '' '' @ b)
           = Some (and_of (not_of (term_pred e a)) (term_pred e b))"
  using is_operandD [OF assms(1)] is_operandD [OF assms(2)]
  by (simp add: compile_def tok_rules parse_expression_def parse_or_def parse_eqs and_then_def
        upper_keywords is_neg_def neg_loop.simps term_pred_def not_of_def and_of_def xor_of_def
        or_of_def split: sum.splits)

lemma compile_paren_or_and:
  assumes "is_operand a" and "is_operand b" and "is_operand c"
  shows "compile e (''('' @ a @ '' OR '' @ b @ '') AND '' @ c)
           = Some (and_of (or_of (term_pred e a) (term_pred e b)) (term_pred e c))"
  using is_operandD [OF assms(1)] is_operandD [OF assms(2)] is_operandD [OF assms(3)]
  by (simp add: compile_def tok_rules parse_expression_def parse_or_def parse_eqs and_then_def
        upper_keywords is_neg_def neg_loop.simps term_pred_def not_of_def and_of_def xor_of_def
        or_of_def split: sum.splits)

lemma compile_paren_xor_and:
  assumes "is_operand a" and "is_operand b" and "is_operand c"
  shows "compile e (''('' @ a @ '' XOR '' @ b @ '') AND '' @ c)
           = Some (and_of (xor_of (term_pred e a) (term_pred e b)) (term_pred e c))"
  using is_operandD [OF assms(1)] is_operandD [OF assms(2)] is_operandD [OF assms(3)]
  by (simp add: compile_def tok_rules parse_expression_def parse_or_def parse_eqs and_then_def
        upper_keywords is_neg_def neg_loop.simps term_pred_def not_of_def and_of_def xor_of_def
        or_of_def split: sum.splits)

lemma compile_paren_or_xor:
  assumes "is_operand a" and "is_operand b" and "is_operand c"
  shows "compile e (''('' @ a @ '' OR '' @ b @ '') XOR '' @ c)
           = Some (xor_of (or_of (term_pred e a) (term_pred e b)) (term_pred e c))"
  using is_operandD [OF assms(1)] is_operandD [OF assms(2)] is_operandD [OF assms(3)]
  by (simp add: compile_def tok_rules parse_expression_def parse_or_def parse_eqs and_then_def
        upper_keywords is_neg_def neg_loop.simps term_pred_def not_of_def and_of_def xor_of_def
        or_of_def split: sum.splits)

lemma compile_paren_not_and:
  assumes "is_operand a" and "is_operand b"
  shows "compile e (''NOT ('' @ a @ '' AND '' @ b @ '')'')
           = Some (not_of (and_of (term_pred e a) (term_pred e b)))"
  using is_operandD [OF assms(1)] is_operandD [OF assms(2)]
  by (simp add: compile_def tok_rules parse_expression_def parse_or_def parse_eqs and_then_def
        upper_keywords is_neg_def neg_loop.simps term_pred_def not_of_def and_of_def xor_of_def
        or_of_def split: sum.splits)

text \<open>
  Claim C6. The operators bind in the order \<open>NOT\<close>, \<open>AND\<close>, \<open>XOR\<close>, \<open>OR\<close>, and two adjacent
  terms are a conjunction. For all terms \<open>a\<close>, \<open>b\<close> and \<open>c\<close>, each query below compiles to
  the predicate on its right, built from the matchers of the terms, or to the exception
  of the first malformed term. A query without parentheses and the query with the
  parentheses of the order compile to the same: \<open>a OR b AND c\<close> and \<open>a OR (b AND c)\<close>,
  \<open>a AND b OR c\<close> and \<open>(a AND b) OR c\<close>, the same with \<open>XOR\<close> for \<open>OR\<close>,
  \<open>a OR b XOR c\<close> and \<open>a OR (b XOR c)\<close>, \<open>a XOR b OR c\<close> and \<open>(a XOR b) OR c\<close>,
  \<open>NOT a AND b\<close> and \<open>(NOT a) AND b\<close>, the same with \<open>XOR\<close> and with \<open>OR\<close> for \<open>AND\<close>,
  \<open>a b\<close> and \<open>a AND b\<close>, \<open>NOT a b\<close> and \<open>(NOT a) AND b\<close>. The last four queries have
  parentheses that go against the order, and compile to another predicate.
\<close>

theorem precedence_and_implicit_and:
  assumes "is_operand a" and "is_operand b" and "is_operand c"
  shows "compile e (a @ '' OR '' @ b @ '' AND '' @ c)
       = Some (or_of (term_pred e a) (and_of (term_pred e b) (term_pred e c)))
   \<and> compile e (a @ '' OR ('' @ b @ '' AND '' @ c @ '')'')
       = Some (or_of (term_pred e a) (and_of (term_pred e b) (term_pred e c)))
   \<and> compile e (a @ '' AND '' @ b @ '' OR '' @ c)
       = Some (or_of (and_of (term_pred e a) (term_pred e b)) (term_pred e c))
   \<and> compile e (''('' @ a @ '' AND '' @ b @ '') OR '' @ c)
       = Some (or_of (and_of (term_pred e a) (term_pred e b)) (term_pred e c))
   \<and> compile e (a @ '' XOR '' @ b @ '' AND '' @ c)
       = Some (xor_of (term_pred e a) (and_of (term_pred e b) (term_pred e c)))
   \<and> compile e (a @ '' XOR ('' @ b @ '' AND '' @ c @ '')'')
       = Some (xor_of (term_pred e a) (and_of (term_pred e b) (term_pred e c)))
   \<and> compile e (a @ '' AND '' @ b @ '' XOR '' @ c)
       = Some (xor_of (and_of (term_pred e a) (term_pred e b)) (term_pred e c))
   \<and> compile e (''('' @ a @ '' AND '' @ b @ '') XOR '' @ c)
       = Some (xor_of (and_of (term_pred e a) (term_pred e b)) (term_pred e c))
   \<and> compile e (a @ '' OR '' @ b @ '' XOR '' @ c)
       = Some (or_of (term_pred e a) (xor_of (term_pred e b) (term_pred e c)))
   \<and> compile e (a @ '' OR ('' @ b @ '' XOR '' @ c @ '')'')
       = Some (or_of (term_pred e a) (xor_of (term_pred e b) (term_pred e c)))
   \<and> compile e (a @ '' XOR '' @ b @ '' OR '' @ c)
       = Some (or_of (xor_of (term_pred e a) (term_pred e b)) (term_pred e c))
   \<and> compile e (''('' @ a @ '' XOR '' @ b @ '') OR '' @ c)
       = Some (or_of (xor_of (term_pred e a) (term_pred e b)) (term_pred e c))
   \<and> compile e (''NOT '' @ a @ '' AND '' @ b)
       = Some (and_of (not_of (term_pred e a)) (term_pred e b))
   \<and> compile e (''(NOT '' @ a @ '') AND '' @ b)
       = Some (and_of (not_of (term_pred e a)) (term_pred e b))
   \<and> compile e (''NOT '' @ a @ '' XOR '' @ b)
       = Some (xor_of (not_of (term_pred e a)) (term_pred e b))
   \<and> compile e (''(NOT '' @ a @ '') XOR '' @ b)
       = Some (xor_of (not_of (term_pred e a)) (term_pred e b))
   \<and> compile e (''NOT '' @ a @ '' OR '' @ b)
       = Some (or_of (not_of (term_pred e a)) (term_pred e b))
   \<and> compile e (''(NOT '' @ a @ '') OR '' @ b)
       = Some (or_of (not_of (term_pred e a)) (term_pred e b))
   \<and> compile e (a @ '' '' @ b)
       = Some (and_of (term_pred e a) (term_pred e b))
   \<and> compile e (a @ '' AND '' @ b)
       = Some (and_of (term_pred e a) (term_pred e b))
   \<and> compile e (''NOT '' @ a @ '' '' @ b)
       = Some (and_of (not_of (term_pred e a)) (term_pred e b))
   \<and> compile e (''('' @ a @ '' OR '' @ b @ '') AND '' @ c)
       = Some (and_of (or_of (term_pred e a) (term_pred e b)) (term_pred e c))
   \<and> compile e (''('' @ a @ '' XOR '' @ b @ '') AND '' @ c)
       = Some (and_of (xor_of (term_pred e a) (term_pred e b)) (term_pred e c))
   \<and> compile e (''('' @ a @ '' OR '' @ b @ '') XOR '' @ c)
       = Some (xor_of (or_of (term_pred e a) (term_pred e b)) (term_pred e c))
   \<and> compile e (''NOT ('' @ a @ '' AND '' @ b @ '')'')
       = Some (not_of (and_of (term_pred e a) (term_pred e b)))"
  by (intro conjI
        compile_or_and [OF assms]
        compile_or_and_paren [OF assms]
        compile_and_or [OF assms]
        compile_and_or_paren [OF assms]
        compile_xor_and [OF assms]
        compile_xor_and_paren [OF assms]
        compile_and_xor [OF assms]
        compile_and_xor_paren [OF assms]
        compile_or_xor [OF assms]
        compile_or_xor_paren [OF assms]
        compile_xor_or [OF assms]
        compile_xor_or_paren [OF assms]
        compile_not_and [OF assms(1,2)]
        compile_not_and_paren [OF assms(1,2)]
        compile_not_xor [OF assms(1,2)]
        compile_not_xor_paren [OF assms(1,2)]
        compile_not_or [OF assms(1,2)]
        compile_not_or_paren [OF assms(1,2)]
        compile_adjacent [OF assms(1,2)]
        compile_adjacent_paren [OF assms(1,2)]
        compile_not_adjacent [OF assms(1,2)]
        compile_paren_or_and [OF assms]
        compile_paren_xor_and [OF assms]
        compile_paren_or_xor [OF assms]
        compile_paren_not_and [OF assms(1,2)])

text \<open>
  The terms \<open>a\<close>, \<open>b\<close> and \<open>c\<close> are name terms. On an entry named \<open>a\<close> the query
  \<open>a OR b AND c\<close> is true and \<open>(a OR b) AND c\<close> is false, \<open>a XOR b AND c\<close> is true and
  \<open>(a XOR b) AND c\<close> is false, \<open>NOT a AND b\<close> is false and \<open>NOT (a AND b)\<close> is true; on an
  entry named \<open>ac\<close> the query \<open>a OR b XOR c\<close> is true and \<open>(a OR b) XOR c\<close> is false.
\<close>

lemma operands_abc: "is_operand ''a''" "is_operand ''b''" "is_operand ''c''"
  by code_simp+

lemma runs_abc:
  "run_on (compile env0 ''a OR b AND c'') (entry ''1'' ''a'') = Some (Inr True)"
  "run_on (compile env0 ''(a OR b) AND c'') (entry ''1'' ''a'') = Some (Inr False)"
  "run_on (compile env0 ''a XOR b AND c'') (entry ''1'' ''a'') = Some (Inr True)"
  "run_on (compile env0 ''(a XOR b) AND c'') (entry ''1'' ''a'') = Some (Inr False)"
  "run_on (compile env0 ''a OR b XOR c'') (entry ''1'' ''ac'') = Some (Inr True)"
  "run_on (compile env0 ''(a OR b) XOR c'') (entry ''1'' ''ac'') = Some (Inr False)"
  "run_on (compile env0 ''NOT a AND b'') (entry ''1'' ''a'') = Some (Inr False)"
  "run_on (compile env0 ''NOT (a AND b)'') (entry ''1'' ''a'') = Some (Inr True)"
  by code_simp+

theorem precedence_and_implicit_and_witness:
  "is_operand ''a'' \<and> is_operand ''b'' \<and> is_operand ''c''
   \<and> compile env0 ''a OR b AND c''
       = Some (or_of (term_pred env0 ''a'') (and_of (term_pred env0 ''b'') (term_pred env0 ''c'')))
   \<and> run_on (compile env0 ''a OR b AND c'') (entry ''1'' ''a'') = Some (Inr True)
   \<and> run_on (compile env0 ''(a OR b) AND c'') (entry ''1'' ''a'') = Some (Inr False)
   \<and> run_on (compile env0 ''a XOR b AND c'') (entry ''1'' ''a'') = Some (Inr True)
   \<and> run_on (compile env0 ''(a XOR b) AND c'') (entry ''1'' ''a'') = Some (Inr False)
   \<and> run_on (compile env0 ''a OR b XOR c'') (entry ''1'' ''ac'') = Some (Inr True)
   \<and> run_on (compile env0 ''(a OR b) XOR c'') (entry ''1'' ''ac'') = Some (Inr False)
   \<and> run_on (compile env0 ''NOT a AND b'') (entry ''1'' ''a'') = Some (Inr False)
   \<and> run_on (compile env0 ''NOT (a AND b)'') (entry ''1'' ''a'') = Some (Inr True)"
proof -
  note t = precedence_and_implicit_and [OF operands_abc, of env0, simplified]
  show ?thesis
    by (intro conjI operands_abc runs_abc t [THEN conjunct1])
qed

section \<open>Queries that do not compile\<close>

lemma compile_strip: "compile e (strip q) = compile e q"
  by (simp add: compile_def tokenize_strip)

lemma run_on_error:
  assumes "run_on r itm = Some (Inl err)"
  shows "r = Some (Inl err)"
  using assms by (auto simp: run_on_def split: option.splits sum.splits)

text \<open>
  Claim C1 says that \<open>filter_items\<close> returns the entries it is given for every query whose
  compilation fails. A query that starts with \<open>module:\<close> is not compiled: the rest of it
  is the name of a module file, and the entries are filtered by the predicate of that
  module. With a module file named \<open>m (\<close> that rejects every entry, the query
  \<open>module:m (\<close> does not compile, for its parenthesis is not closed, and \<open>filter_items\<close>
  returns no entry.
\<close>

theorem module_query_counterexample:
  "run_on (compile env1 ''module:m ('') (entry ''25'' ''a'') = Some (Inl ValueError)
   \<and> filter_items env1 [entry ''25'' ''a''] ''module:m ('' = Some []"
  by code_simp

text \<open>
  Claim C1, amended. Let the compilation of a query fail. When the query, stripped and
  in lower case, does not start with \<open>module:\<close>, \<open>filter_items\<close> returns the entries it is
  given. When it does, \<open>filter_items\<close> returns them if no module of that name is loaded,
  and otherwise those that the predicate of the module accepts. \<open>filter_item\<close> returns
  false.
\<close>

theorem unparseable_query:
  assumes "compile e q = Some (Inl err)"
  shows "(\<not> startswith (lower (strip q)) ''module:'' \<longrightarrow> filter_items e items q = Some items)
     \<and> (startswith (lower (strip q)) ''module:'' \<longrightarrow>
          filter_items e items q
            = (case loaded_module e (strip (drop (length ''module:'') (strip q))) of
                 None \<Rightarrow> Some items
               | Some compiled_filter \<Rightarrow> Some (filter compiled_filter items)))
     \<and> filter_item e k q = Some False"
proof -
  have s: "safe_compile e (strip q) = Some None"
    using assms by (simp add: safe_compile_def compile_strip)
  have s': "safe_compile e q = Some None"
    using assms by (simp add: safe_compile_def)
  have "strip q \<noteq> []" if "startswith (lower (strip q)) ''module:''"
    using that by (auto simp: startswith_def lower_def)
  then show ?thesis
    by (auto simp: filter_items_def filter_item_def s s' Let_def split: option.splits)
qed

text \<open>
  The query \<open>(a\<close> does not compile and does not name a module; the query \<open>module:m (\<close> does
  not compile and names the module of \<open>env1\<close>.
\<close>

lemma fails_paren: "compile env1 ''(a'' = Some (Inl ValueError)"
proof (rule run_on_error)
  show "run_on (compile env1 ''(a'') (entry ''25'' ''a'') = Some (Inl ValueError)"
    by code_simp
qed

lemma fails_module: "compile env1 ''module:m ('' = Some (Inl ValueError)"
proof (rule run_on_error)
  show "run_on (compile env1 ''module:m ('') (entry ''25'' ''a'') = Some (Inl ValueError)"
    by code_simp
qed

lemma module_prefix:
  "\<not> startswith (lower (strip ''(a'')) ''module:''"
  "startswith (lower (strip ''module:m ('')) ''module:''"
  "strip (drop (length ''module:'') (strip ''module:m ('')) = ''m (''"
  by code_simp+

theorem unparseable_query_witness:
  "compile env1 ''(a'' = Some (Inl ValueError)
   \<and> \<not> startswith (lower (strip ''(a'')) ''module:''
   \<and> filter_items env1 [entry ''25'' ''a''] ''(a'' = Some [entry ''25'' ''a'']
   \<and> filter_item env1 (Some ''25'') ''(a'' = Some False
   \<and> compile env1 ''module:m ('' = Some (Inl ValueError)
   \<and> startswith (lower (strip ''module:m ('')) ''module:''
   \<and> filter_items env1 [entry ''25'' ''a''] ''module:m ('' = Some []
   \<and> filter_item env1 (Some ''25'') ''module:m ('' = Some False"
  using unparseable_query [OF fails_paren, of "[entry ''25'' ''a'']" "Some ''25''"]
    unparseable_query [OF fails_module, of "[entry ''25'' ''a'']" "Some ''25''"]
    fails_paren fails_module module_prefix
  by (simp add: env1_def)

end
